theory Spec2Isabelle
  imports Complex_Main "HOL-Library.Multiset" "HOL-Library.Sublist"
    "HOL-Library.Char_ord" "HOL-Library.List_Lexorder"
begin

section \<open>Tables\<close>

text \<open>
  The dashboard (\<^verbatim>\<open>sosi_dashboard.py\<close>) works on pandas data frames read from Excel
  workbooks. A cell is a text, an integer, a timestamp (nanoseconds since 1970-01-01, as
  pandas stores it) or the missing value (\<^verbatim>\<open>NaN\<close>, \<^verbatim>\<open>NaT\<close>). Floating-point cells are
  not modelled. Text is ASCII: one \<^typ>\<open>char\<close> is one character.

  A data frame is its list of column labels and its list of rows. A column is found by
  the first label that equals the name (\<^verbatim>\<open>read_excel\<close> hands out distinct labels; the
  labels of the master table, which are stripped after the read, are looked at again
  where that table is used). A row shorter than the header reads as missing there, the
  way \<^verbatim>\<open>read_excel\<close> fills it.
\<close>

datatype cell = Str string | Num int | Tstamp int | NaN

record dataframe =
  columns :: "string list"
  rows :: "cell list list"

text \<open>
  An exception is a value. \<open>OutsideModel\<close> is not an exception of the program: it marks
  the places where the model gives no answer about what the program does.
\<close>

datatype error = KeyError string | BadFile | WorksheetNotFound string | ValueError | OutsideModel

definition empty_frame :: dataframe where
  \<comment> \<open>\<^verbatim>\<open>pd.DataFrame()\<close>\<close>
  "empty_frame = \<lparr>columns = [], rows = []\<rparr>"

fun col_index :: "string \<Rightarrow> string list \<Rightarrow> nat option" where
  "col_index c [] = None"
| "col_index c (x # xs) = (if x = c then Some 0 else map_option Suc (col_index c xs))"

definition cell_at :: "cell list \<Rightarrow> nat \<Rightarrow> cell" where
  "cell_at r i = (if i < length r then r ! i else NaN)"

definition getitem :: "dataframe \<Rightarrow> string \<Rightarrow> error + cell list" where
  \<comment> \<open>\<^verbatim>\<open>df[c]\<close>: the column as a series, \<^verbatim>\<open>KeyError\<close> when there is no such label\<close>
  "getitem df c =
     (case col_index c (columns df) of
        None \<Rightarrow> Inl (KeyError c)
      | Some i \<Rightarrow> Inr (map (\<lambda>r. cell_at r i) (rows df)))"

definition select_rows :: "dataframe \<Rightarrow> bool list \<Rightarrow> dataframe" where
  \<comment> \<open>\<^verbatim>\<open>df[mask]\<close> for a boolean series \<^verbatim>\<open>mask\<close> aligned with the rows\<close>
  "select_rows df keep = df\<lparr>rows := map fst (filter snd (zip (rows df) keep))\<rparr>"

definition len :: "dataframe \<Rightarrow> int" where
  "len df = int (length (rows df))"

section \<open>Counting values\<close>

text \<open>
  \<^verbatim>\<open>Series.value_counts()\<close> drops missing values, counts every distinct value and
  orders the result by descending count. Values are listed in the order of their first
  occurrence before the sort, and the sort is stable, so ties keep that order.
\<close>

definition first_seen :: "'a list \<Rightarrow> 'a list" where
  "first_seen xs = rev (remdups (rev xs))"

definition value_counts :: "cell list \<Rightarrow> (cell \<times> int) list" where
  "value_counts xs =
     (let ys = filter (\<lambda>c. c \<noteq> NaN) xs
      in sort_key (\<lambda>p. - snd p) (map (\<lambda>v. (v, int (count_list ys v))) (first_seen ys)))"

section \<open>Gap analysis (tab 4)\<close>

definition priority :: "int \<Rightarrow> string" where
  \<comment> \<open>the \<^verbatim>\<open>Priority\<close> lambda of lines 325 to 327\<close>
  "priority x = (if x \<ge> 10 then ''CRITICAL'' else if x \<ge> 5 then ''HIGH'' else ''MEDIUM'')"

definition gap_analysis :: "dataframe \<Rightarrow> error + (cell \<times> int \<times> string) list option" where
  \<comment> \<open>lines 319 to 327; \<^verbatim>\<open>None\<close>: no table of gaps is built.
      An entry is (Language, Unfulfilled Requests, Priority).\<close>
  "gap_analysis df =
     (if ''Has Linguist?'' \<in> set (columns df) then
        (case getitem df ''Has Linguist?'' of
           Inl e \<Rightarrow> Inl e
         | Inr has \<Rightarrow>
             let no_linguist_df = select_rows df (map (\<lambda>c. c = Str ''NO'') has)
             in if rows no_linguist_df \<noteq> [] then
                  (case getitem no_linguist_df ''Language'' of
                     Inl e \<Rightarrow> Inl e
                   | Inr langs \<Rightarrow>
                       let gap_summary = value_counts langs;
                           critical_gaps = filter (\<lambda>p. snd p \<ge> 5) gap_summary
                       in Inr (Some (map (\<lambda>(l, n). (l, n, priority n)) critical_gaps)))
                else Inr None)
      else Inr None)"

definition gap_entries :: "(cell \<times> int \<times> string) list option \<Rightarrow> (cell \<times> int \<times> string) list" where
  \<comment> \<open>what the tab shows: no table is no entry\<close>
  "gap_entries r = (case r of None \<Rightarrow> [] | Some g \<Rightarrow> g)"


text \<open>
  The claim about the gap analysis speaks of "filtering to rows with Has Linguist? equal
  to NO and counting per language". \<open>unfulfilled_requests\<close> is that count, written from
  those words, to be compared with what \<open>gap_analysis\<close> computes. \<open>field\<close> reads the cell
  of a row under a column label.
\<close>

definition field :: "dataframe \<Rightarrow> string \<Rightarrow> cell list \<Rightarrow> cell" where
  "field df c r = (case col_index c (columns df) of None \<Rightarrow> NaN | Some i \<Rightarrow> cell_at r i)"

definition unfulfilled_requests :: "dataframe \<Rightarrow> cell \<Rightarrow> int" where
  "unfulfilled_requests df l =
     int (length (filter (\<lambda>r. field df ''Has Linguist?'' r = Str ''NO'' \<and> field df ''Language'' r = l)
                    (rows df)))"

definition no_linguist_languages :: "dataframe \<Rightarrow> cell list" where
  \<comment> \<open>the series \<^verbatim>\<open>no_linguist_df['Language']\<close>\<close>
  "no_linguist_languages df =
     map (field df ''Language'') (filter (\<lambda>r. field df ''Has Linguist?'' r = Str ''NO'') (rows df))"

definition gap_rows :: "cell list \<Rightarrow> (cell \<times> int \<times> string) list" where
  \<comment> \<open>lines 322 to 327 on the series of languages\<close>
  "gap_rows langs =
     map (\<lambda>(l, n). (l, n, priority n)) (filter (\<lambda>p. snd p \<ge> 5) (value_counts langs))"

section \<open>Overview metrics (tab 1)\<close>

text \<open>
  The rate is a floating-point number. A finite one is modelled as the exact rational
  number (rounding of the double-precision operations is outside the model); the two
  results that numpy gives for a division by zero are values of their own.
\<close>

datatype number = Finite rat | Infinity | NotANumber

definition true_divide :: "int \<Rightarrow> int \<Rightarrow> number" where
  \<comment> \<open>\<^verbatim>\<open>a / b\<close> for a numpy integer \<^verbatim>\<open>a\<close> that is not negative\<close>
  "true_divide a b =
     (if b = 0 then (if a = 0 then NotANumber else Infinity) else Finite (of_int a / of_int b))"

definition times :: "number \<Rightarrow> rat \<Rightarrow> number" where
  \<comment> \<open>\<^verbatim>\<open>x * k\<close> for a positive constant \<^verbatim>\<open>k\<close>\<close>
  "times x k = (case x of Finite q \<Rightarrow> Finite (q * k) | Infinity \<Rightarrow> Infinity | NotANumber \<Rightarrow> NotANumber)"

definition total_requests :: "dataframe \<Rightarrow> int" where
  "total_requests df = len df"

definition fulfilled :: "dataframe \<Rightarrow> error + int option" where
  \<comment> \<open>lines 149 and 150; \<^verbatim>\<open>None\<close>: the metric is skipped\<close>
  "fulfilled df =
     (if ''Has Linguist?'' \<in> set (columns df) then
        (case getitem df ''Has Linguist?'' of
           Inl e \<Rightarrow> Inl e
         | Inr has \<Rightarrow> Inr (Some (int (length (filter (\<lambda>c. c = Str ''YES'') has)))))
      else Inr None)"

definition fulfillment_rate :: "dataframe \<Rightarrow> error + number option" where
  \<comment> \<open>lines 149 to 151\<close>
  "fulfillment_rate df =
     (case fulfilled df of
        Inl e \<Rightarrow> Inl e
      | Inr None \<Rightarrow> Inr None
      | Inr (Some f) \<Rightarrow>
          Inr (Some (if total_requests df > 0
                     then times (true_divide f (total_requests df)) 100 else Finite 0)))"

definition unique_languages :: "dataframe \<Rightarrow> error + int option" where
  \<comment> \<open>lines 155 and 156: \<^verbatim>\<open>nunique()\<close> leaves missing values out\<close>
  "unique_languages df =
     (if ''Language'' \<in> set (columns df) then
        (case getitem df ''Language'' of
           Inl e \<Rightarrow> Inl e
         | Inr langs \<Rightarrow> Inr (Some (int (length (first_seen (filter (\<lambda>c. c \<noteq> NaN) langs))))))
      else Inr None)"

definition unfulfilled :: "dataframe \<Rightarrow> error + int option" where
  \<comment> \<open>lines 160 and 161\<close>
  "unfulfilled df =
     (if ''Has Linguist?'' \<in> set (columns df) then
        (case getitem df ''Has Linguist?'' of
           Inl e \<Rightarrow> Inl e
         | Inr has \<Rightarrow> Inr (Some (int (length (filter (\<lambda>c. c = Str ''NO'') has)))))
      else Inr None)"

section \<open>Language statistics (\<^verbatim>\<open>process_language_stats\<close>)\<close>

text \<open>
  \<^verbatim>\<open>groupby(k)[v].apply(f)\<close> leaves out the rows whose key is missing and gives one
  entry per key. pandas lists the keys sorted; they are listed here in the order of
  their first occurrence, which the left merge below does not depend on: it keeps the
  order of its left operand.
\<close>

definition groupby_apply :: "cell list \<Rightarrow> cell list \<Rightarrow> (cell list \<Rightarrow> 'a) \<Rightarrow> (cell \<times> 'a) list" where
  "groupby_apply keys vals f =
     map (\<lambda>k. (k, f (map snd (filter (\<lambda>p. fst p = k) (zip keys vals)))))
         (first_seen (filter (\<lambda>c. c \<noteq> NaN) keys))"

definition merge_left :: "cell list list \<Rightarrow> (cell \<times> string) list \<Rightarrow> cell list list" where
  \<comment> \<open>\<^verbatim>\<open>left.merge(right, on='Language', how='left')\<close>, the key being the first cell of a
      left row: one row per match, and one row with a missing status when there is none\<close>
  "merge_left left right =
     concat (map (\<lambda>r. case filter (\<lambda>p. fst p = cell_at r 0) right of
                         [] \<Rightarrow> [r @ [NaN]]
                       | m # ms \<Rightarrow> map (\<lambda>p. r @ [Str (snd p)]) (m # ms)) left)"

definition sourcing :: "cell list \<Rightarrow> string" where
  \<comment> \<open>the lambda of line 112\<close>
  "sourcing x = (if Str ''YES'' \<in> set x then ''Sourceable'' else ''Not Sourceable'')"

definition process_language_stats :: "dataframe \<Rightarrow> error + dataframe" where
  "process_language_stats df =
     (if ''Language'' \<notin> set (columns df) then Inr empty_frame
      else
        (case getitem df ''Language'' of
           Inl e \<Rightarrow> Inl e
         | Inr langs \<Rightarrow>
             let language_counts =
                   \<lparr>columns = [''Language'', ''Request Count''],
                    rows = map (\<lambda>(l, n). [l, Num n]) (value_counts langs)\<rparr>
             in if ''Has Linguist?'' \<in> set (columns df) then
                  (case getitem df ''Has Linguist?'' of
                     Inl e \<Rightarrow> Inl e
                   | Inr has \<Rightarrow>
                       let sourcing_status = groupby_apply langs has sourcing
                       in Inr \<lparr>columns = [''Language'', ''Request Count'', ''Status''],
                               rows = merge_left (rows language_counts) sourcing_status\<rparr>)
                else Inr language_counts))"

definition request_counts :: "dataframe \<Rightarrow> cell list" where
  \<comment> \<open>the \<^verbatim>\<open>Request Count\<close> column of the statistics, the second cell of each row\<close>
  "request_counts out = map (\<lambda>r. cell_at r 1) (rows out)"


text \<open>
  The spec calls a language Sourceable "if at least one row has Has Linguist? equal to
  YES". \<open>status_of\<close> is the status written from those words.
\<close>

definition status_of :: "dataframe \<Rightarrow> cell \<Rightarrow> string" where
  "status_of df l =
     (if \<exists>r \<in> set (rows df). field df ''Language'' r = l \<and> field df ''Has Linguist?'' r = Str ''YES''
      then ''Sourceable'' else ''Not Sourceable'')"

section \<open>Trends (tab 3)\<close>

text \<open>
  \<^verbatim>\<open>pd.to_datetime(column, errors='coerce')\<close> leaves a timestamp and a missing value as
  they are. What it makes of a text or of an integer depends on the column the value
  stands in (pandas settles on one date format for the column) and is not part of the
  repository: it is the parameter \<open>parse\<close>, which is given the column and the value
  and answers with the timestamp, or with nothing when the value is not read as a date.
\<close>

definition to_datetime :: "(cell list \<Rightarrow> cell \<Rightarrow> int option) \<Rightarrow> cell list \<Rightarrow> cell list" where
  "to_datetime parse col =
     map (\<lambda>c. case c of
                 Tstamp t \<Rightarrow> Tstamp t
               | NaN \<Rightarrow> NaN
               | _ \<Rightarrow> (case parse col c of Some t \<Rightarrow> Tstamp t | None \<Rightarrow> NaN)) col"

definition set_cell :: "cell list \<Rightarrow> nat \<Rightarrow> cell \<Rightarrow> cell list" where
  "set_cell r i v =
     (if i < length r then r[i := v] else r @ replicate (i - length r) NaN @ [v])"

definition setitem :: "dataframe \<Rightarrow> string \<Rightarrow> cell list \<Rightarrow> dataframe" where
  \<comment> \<open>\<^verbatim>\<open>df[c] = vals\<close> for a label that occurs at most once: overwrites the column, or
      appends it when the label is new\<close>
  "setitem df c vals =
     (case col_index c (columns df) of
        Some i \<Rightarrow> df\<lparr>rows := map (\<lambda>(r, v). set_cell r i v) (zip (rows df) vals)\<rparr>
      | None \<Rightarrow>
          \<lparr>columns = columns df @ [c],
           rows = map (\<lambda>(r, v). set_cell r (length (columns df)) v) (zip (rows df) vals)\<rparr>)"

text \<open>
  The labels of the master table are stripped after the read (line 84), so two of them
  can be equal. \<^verbatim>\<open>df[c]\<close> is then a frame, not a series. \<^verbatim>\<open>pd.to_datetime\<close> raises
  \<^verbatim>\<open>ValueError\<close> on such a frame (it looks for columns \<^verbatim>\<open>year\<close>, \<^verbatim>\<open>month\<close>, \<^verbatim>\<open>day\<close>
  and finds the same label twice). For the other uses of a doubled label the model
  gives no answer.
\<close>

definition series :: "dataframe \<Rightarrow> string \<Rightarrow> error + cell list" where
  \<comment> \<open>\<^verbatim>\<open>df[c]\<close> where the script goes on with a series\<close>
  "series df c = (if count_list (columns df) c > 1 then Inl OutsideModel else getitem df c)"

definition assign :: "dataframe \<Rightarrow> string \<Rightarrow> cell list \<Rightarrow> error + dataframe" where
  \<comment> \<open>\<^verbatim>\<open>df[c] = vals\<close>\<close>
  "assign df c vals = (if count_list (columns df) c > 1 then Inl OutsideModel else Inr (setitem df c vals))"

definition dropna :: "dataframe \<Rightarrow> string \<Rightarrow> error + dataframe" where
  \<comment> \<open>\<^verbatim>\<open>df.dropna(subset=[c])\<close>: a new frame\<close>
  "dropna df c =
     (case series df c of
        Inl e \<Rightarrow> Inl e
      | Inr vals \<Rightarrow> Inr (select_rows df (map (\<lambda>v. v \<noteq> NaN) vals)))"

definition date_columns :: "string list" where
  "date_columns = [''Date of request'', ''Hearing Date'', ''Row Added'']"

definition convert_column :: "(cell list \<Rightarrow> cell \<Rightarrow> int option) \<Rightarrow> dataframe \<Rightarrow> string \<Rightarrow> error + dataframe" where
  \<comment> \<open>the body of the loop of lines 256 to 258\<close>
  "convert_column parse df c =
     (if c \<in> set (columns df) then
        (if count_list (columns df) c > 1 then Inl ValueError
         else
           (case getitem df c of
              Inl e \<Rightarrow> Inl e
            | Inr vals \<Rightarrow> Inr (setitem df c (to_datetime parse vals))))
      else Inr df)"

fun convert_dates :: "(cell list \<Rightarrow> cell \<Rightarrow> int option) \<Rightarrow> dataframe \<Rightarrow> string list \<Rightarrow> error + dataframe" where
  "convert_dates parse df [] = Inr df"
| "convert_dates parse df (c # cs) =
     (case convert_column parse df c of
        Inl e \<Rightarrow> Inl e
      | Inr df' \<Rightarrow> convert_dates parse df' cs)"

definition day_order :: "string list" where
  "day_order = [''Monday'', ''Tuesday'', ''Wednesday'', ''Thursday'', ''Friday'', ''Saturday'', ''Sunday'']"

definition day_name :: "int \<Rightarrow> string" where
  \<comment> \<open>1970-01-01 was a Thursday; a day has 86400000000000 nanoseconds\<close>
  "day_name t = day_order ! nat ((t div 86400000000000 + 3) mod 7)"

definition dt_day_name :: "cell \<Rightarrow> cell" where
  \<comment> \<open>\<^verbatim>\<open>.dt.day_name()\<close> on one value\<close>
  "dt_day_name c = (case c of Tstamp t \<Rightarrow> Str (day_name t) | _ \<Rightarrow> NaN)"

definition reindex :: "(cell \<times> int) list \<Rightarrow> cell list \<Rightarrow> int \<Rightarrow> (cell \<times> int) list" where
  \<comment> \<open>\<^verbatim>\<open>series.reindex(idx, fill_value=fill)\<close> for a series with distinct labels\<close>
  "reindex s idx fill = map (\<lambda>k. (k, case map_of s k of Some n \<Rightarrow> n | None \<Rightarrow> fill)) idx"

definition day_counts :: "dataframe \<Rightarrow> error + (cell \<times> int) list" where
  \<comment> \<open>lines 281 to 283, on \<^verbatim>\<open>df_time\<close>\<close>
  "day_counts df_time =
     (case series df_time ''Row Added'' of
        Inl e \<Rightarrow> Inl e
      | Inr ts \<Rightarrow>
          (case assign df_time ''Day of Week'' (map dt_day_name ts) of
             Inl e \<Rightarrow> Inl e
           | Inr df_time' \<Rightarrow>
               (case series df_time' ''Day of Week'' of
                  Inl e \<Rightarrow> Inl e
                | Inr days \<Rightarrow> Inr (reindex (value_counts days) (map Str day_order) 0))))"

definition day_of_week_volume ::
  "(cell list \<Rightarrow> cell \<Rightarrow> int option) \<Rightarrow> dataframe \<Rightarrow> error + (cell \<times> int) list option" where
  \<comment> \<open>the day-of-week volume of a master table as it was loaded: the conversion of
      lines 255 to 258, \<^verbatim>\<open>df_time\<close> of lines 261 and 262, the counts of lines 280 to 283.
      The \<^verbatim>\<open>Month\<close> column that line 263 adds to \<^verbatim>\<open>df_time\<close> in between is not read
      here; it is part of \<open>trends_tab\<close> below. \<open>None\<close>: nothing is computed.\<close>
  "day_of_week_volume parse df =
     (case convert_dates parse df date_columns of
        Inl e \<Rightarrow> Inl e
      | Inr df' \<Rightarrow>
          (if ''Row Added'' \<in> set (columns df') then
             (case dropna df' ''Row Added'' of
                Inl e \<Rightarrow> Inl e
              | Inr df_time \<Rightarrow>
                  (case day_counts df_time of
                     Inl e \<Rightarrow> Inl e
                   | Inr counts \<Rightarrow> Inr (Some counts)))
           else Inr None))"

text \<open>
  The weekdays on which the rows of a master table were added, written from the spec's
  words ("bucket by weekday name"): one entry for each row, none where \<^verbatim>\<open>Row Added\<close> is
  not read as a date.
\<close>

definition added_on :: "(cell list \<Rightarrow> cell \<Rightarrow> int option) \<Rightarrow> dataframe \<Rightarrow> string option list" where
  "added_on parse df =
     map (\<lambda>c. case c of Tstamp t \<Rightarrow> Some (day_name t) | _ \<Rightarrow> None)
         (to_datetime parse (map (field df ''Row Added'') (rows df)))"

section \<open>Loading (\<^verbatim>\<open>load_data\<close>)\<close>

text \<open>
  An uploaded file is either unreadable as a workbook or a workbook with its sheets in
  order. \<^verbatim>\<open>pd.read_excel\<close> fails on an unreadable file and on a sheet name that the
  workbook does not have; without a sheet name it reads the first sheet. A sheet is given
  as the frame that pandas reads from it: a blank cell, and a text that \<^verbatim>\<open>read_excel\<close>
  takes for a missing value (such as \<^verbatim>\<open>n/a\<close>, \<^verbatim>\<open>NA\<close> or \<^verbatim>\<open>null\<close>), is the missing value
  there. The cache of \<^verbatim>\<open>st.cache_data\<close> hands out a copy of the same result and is not
  modelled.
\<close>

datatype xl_file = Unreadable | Workbook "(string \<times> dataframe) list"

fun read_excel :: "xl_file \<Rightarrow> string option \<Rightarrow> error + dataframe" where
  "read_excel Unreadable _ = Inl BadFile"
| "read_excel (Workbook []) None = Inl BadFile"
| "read_excel (Workbook ((n, t) # _)) None = Inr t"
| "read_excel (Workbook sheets) (Some name) =
     (case map_of sheets name of None \<Rightarrow> Inl (WorksheetNotFound name) | Some t \<Rightarrow> Inr t)"

record data =
  master :: "dataframe option"
  analysis :: "dataframe option"
  summary :: "dataframe option"
  linguists :: "dataframe option"

definition is_space :: "char \<Rightarrow> bool" where
  \<comment> \<open>the ASCII characters that \<^verbatim>\<open>str.strip()\<close> removes\<close>
  "is_space c = (of_char c \<in> {9, 10, 11, 12, 13, 28, 29, 30, 31, 32 :: nat})"

definition strip :: "string \<Rightarrow> string" where
  "strip s = rev (dropWhile is_space (rev (dropWhile is_space s)))"

definition load_data :: "xl_file option \<Rightarrow> xl_file option \<Rightarrow> xl_file option \<Rightarrow> error + data" where
  "load_data master_file analysis_file linguist_file =
     (let d0 = \<lparr>master = None, analysis = None, summary = None, linguists = None\<rparr>
      in case (case master_file of
                 None \<Rightarrow> Inr d0
               | Some f \<Rightarrow>
                   (case read_excel f None of
                      Inl e \<Rightarrow> Inl e
                    | Inr t \<Rightarrow> Inr (d0\<lparr>master := Some (t\<lparr>columns := map strip (columns t)\<rparr>)\<rparr>))) of
           Inl e \<Rightarrow> Inl e
         | Inr d1 \<Rightarrow>
             (case (case analysis_file of
                      None \<Rightarrow> Inr d1
                    | Some f \<Rightarrow>
                        (case read_excel f (Some ''All Historical Data'') of
                           Inl _ \<Rightarrow>
                             (case read_excel f None of
                                Inl e \<Rightarrow> Inl e
                              | Inr t \<Rightarrow> Inr (d1\<lparr>analysis := Some t\<rparr>))
                         | Inr a \<Rightarrow>
                             (case read_excel f (Some ''Summary'') of
                                Inl _ \<Rightarrow>
                                  (case read_excel f None of
                                     Inl e \<Rightarrow> Inl e
                                   | Inr t \<Rightarrow> Inr (d1\<lparr>analysis := Some t\<rparr>))
                              | Inr s \<Rightarrow> Inr (d1\<lparr>analysis := Some a, summary := Some s\<rparr>)))) of
                Inl e \<Rightarrow> Inl e
              | Inr d2 \<Rightarrow>
                  (case linguist_file of
                     None \<Rightarrow> Inr d2
                   | Some f \<Rightarrow>
                       (case read_excel f None of
                          Inl e \<Rightarrow> Inl e
                        | Inr t \<Rightarrow> Inr (d2\<lparr>linguists := Some t\<rparr>)))))"

section \<open>Search (tab 5)\<close>

text \<open>
  \<^verbatim>\<open>astype(str)\<close> turns every cell of a row into text: a text stays, an integer is
  written in decimal, the missing value is \<^verbatim>\<open>nan\<close>. How pandas prints a timestamp is
  not part of the repository: it is the parameter \<open>fmt\<close>.
\<close>

definition digit_char :: "nat \<Rightarrow> char" where
  "digit_char d = char_of (48 + d)"

function str_nat :: "nat \<Rightarrow> string" where
  "str_nat n = (if n < 10 then [digit_char n] else str_nat (n div 10) @ [digit_char (n mod 10)])"
  by pat_completeness auto
termination
  by (relation "measure (\<lambda>n. n)") auto

definition str_int :: "int \<Rightarrow> string" where
  "str_int i = (if i < 0 then CHR ''-'' # str_nat (nat (- i)) else str_nat (nat i))"

definition astype_str :: "(int \<Rightarrow> string) \<Rightarrow> cell \<Rightarrow> string" where
  "astype_str fmt c =
     (case c of Str s \<Rightarrow> s | Num n \<Rightarrow> str_int n | Tstamp t \<Rightarrow> fmt t | NaN \<Rightarrow> ''nan'')"

text \<open>
  \<^verbatim>\<open>Series.str.contains(pat, case=False)\<close> compiles \<^verbatim>\<open>pat\<close> as a regular expression
  (\<^verbatim>\<open>regex=True\<close> is the default) with the flag \<^verbatim>\<open>re.IGNORECASE\<close> and searches every
  text for a match. The regular expressions modelled are those built from ordinary
  characters and the dot, which matches any character but the newline. For a pattern
  with any other special character of \<^verbatim>\<open>re\<close> the model gives no answer
  (\<open>re_compile\<close> is \<open>None\<close>): it says nothing about what the code does then.
\<close>

datatype atom = Lit char | AnyChar

definition regex_special :: "string" where
  "regex_special = ''.^$*+?{}[]|()'' @ [CHR 0x5C]"

fun re_compile :: "string \<Rightarrow> atom list option" where
  "re_compile [] = Some []"
| "re_compile (c # cs) =
     (if c = CHR ''.'' then map_option ((#) AnyChar) (re_compile cs)
      else if c \<in> set regex_special then None
      else map_option ((#) (Lit c)) (re_compile cs))"

definition lower :: "char \<Rightarrow> char" where
  \<comment> \<open>case folding of an ASCII character\<close>
  "lower c = (let n = of_char c :: nat in if 65 \<le> n \<and> n \<le> 90 then char_of (n + 32) else c)"

definition atom_matches :: "atom \<Rightarrow> char \<Rightarrow> bool" where
  "atom_matches a c = (case a of Lit l \<Rightarrow> lower l = lower c | AnyChar \<Rightarrow> c \<noteq> CHR 0x0A)"

fun match_here :: "atom list \<Rightarrow> string \<Rightarrow> bool" where
  "match_here [] s = True"
| "match_here (a # as) [] = False"
| "match_here (a # as) (c # cs) = (atom_matches a c \<and> match_here as cs)"

fun re_search :: "atom list \<Rightarrow> string \<Rightarrow> bool" where
  "re_search pat [] = match_here pat []"
| "re_search pat (c # cs) = (match_here pat (c # cs) \<or> re_search pat cs)"

definition row_values :: "dataframe \<Rightarrow> cell list \<Rightarrow> cell list" where
  \<comment> \<open>the row as a series: one value for each column\<close>
  "row_values df r = map (cell_at r) [0..<length (columns df)]"

definition search_records :: "(int \<Rightarrow> string) \<Rightarrow> string \<Rightarrow> dataframe \<Rightarrow> dataframe option" where
  \<comment> \<open>lines 405 and 406\<close>
  "search_records fmt search_term df =
     (case re_compile search_term of
        None \<Rightarrow> None
      | Some pat \<Rightarrow>
          Some (select_rows df
                  (map (\<lambda>r. list_ex (\<lambda>c. re_search pat (astype_str fmt c)) (row_values df r))
                       (rows df))))"

text \<open>
  The search as the spec words it: the rows in which the text of at least one column
  contains the query as a substring, letter case aside.
\<close>

definition contains_ci :: "string \<Rightarrow> string \<Rightarrow> bool" where
  "contains_ci q s = sublist (map lower q) (map lower s)"

definition search_spec :: "(int \<Rightarrow> string) \<Rightarrow> string \<Rightarrow> dataframe \<Rightarrow> dataframe" where
  "search_spec fmt q df =
     df\<lparr>rows := filter (\<lambda>r. list_ex (\<lambda>c. contains_ci q (astype_str fmt c)) (row_values df r))
                        (rows df)\<rparr>"

section \<open>One run of the dashboard\<close>

text \<open>
  Streamlit runs the script from top to bottom on every interaction, the bodies of all
  five tabs included. The loaded tables are the state; each tab takes them and hands
  them on. An exception ends the run.

  Whatever the script hands to Streamlit or to plotly to be shown (a metric, a table, the
  data of a chart) is a value of \<open>shown\<close>. Whether the library then draws it or raises
  is not part of the repository: it is the parameter \<open>present\<close>, which answers with the
  exception, or with nothing when the item was drawn. Calls that are given no data of
  the tables (headers, captions, the widgets that read an input) are left out; what the
  user entered is the record \<open>ui\<close>. How pandas names the month of a timestamp
  (\<^verbatim>\<open>to_period('M')\<close>) and how it prints a timestamp are parameters as well.
\<close>

datatype shown =
    TotalRequests int
  | FulfillmentRate number
  | UniqueLanguages int
  | UnfulfilledRequests int
  | TopLanguages "(cell \<times> int) list"
  | StatusDistribution "(string \<times> int) list"
  | LanguageTable dataframe
  | GapLanguages "(cell \<times> int) list"
  | MonthlyVolume "(string \<times> int) list"
  | DayVolume "(cell \<times> int) list"
  | PriorityDistribution "(cell \<times> int) list"
  | CriticalGaps "(cell \<times> int \<times> string) list"
  | Locations "(cell \<times> int) list"
  | Download dataframe
  | RawData dataframe
  | SearchResults dataframe

record library =
  lib_parse :: "cell list \<Rightarrow> cell \<Rightarrow> int option"
  lib_month :: "int \<Rightarrow> string"
  lib_fmt :: "int \<Rightarrow> string"
  lib_present :: "shown \<Rightarrow> error option"

record ui =
  ui_status_filter :: string
  ui_download :: bool
  ui_data_selection :: string
  ui_search_term :: string

definition and_then :: "error + 'a \<Rightarrow> ('a \<Rightarrow> error + 'b) \<Rightarrow> error + 'b" where
  \<comment> \<open>one statement after the other: an exception of the first skips the second\<close>
  "and_then r f = (case r of Inl e \<Rightarrow> Inl e | Inr x \<Rightarrow> f x)"

definition display :: "(shown \<Rightarrow> error option) \<Rightarrow> shown \<Rightarrow> error + unit" where
  "display present s = (case present s of Some e \<Rightarrow> Inl e | None \<Rightarrow> Inr ())"

definition display_if :: "(shown \<Rightarrow> error option) \<Rightarrow> ('a \<Rightarrow> shown) \<Rightarrow> 'a option \<Rightarrow> error + unit" where
  \<comment> \<open>an item that is shown only when it was computed\<close>
  "display_if present item x = (case x of None \<Rightarrow> Inr () | Some v \<Rightarrow> display present (item v))"

definition top_languages :: "dataframe \<Rightarrow> error + (cell \<times> int) list option" where
  \<comment> \<open>lines 171 and 172\<close>
  "top_languages df =
     (if ''Language'' \<in> set (columns df) then
        (case getitem df ''Language'' of
           Inl e \<Rightarrow> Inl e
         | Inr langs \<Rightarrow> Inr (Some (take 10 (value_counts langs))))
      else Inr None)"

definition status_counts :: "dataframe \<Rightarrow> error + (string \<times> int) list option" where
  \<comment> \<open>lines 185 to 189: the counts of the answers, named for the pie\<close>
  "status_counts df =
     (if ''Has Linguist?'' \<in> set (columns df) then
        (case getitem df ''Has Linguist?'' of
           Inl e \<Rightarrow> Inl e
         | Inr has \<Rightarrow>
             Inr (Some (map (\<lambda>(x, n). (if x = Str ''YES'' then ''Sourceable'' else ''Not Sourceable'', n))
                            (value_counts has))))
      else Inr None)"

definition overview_tab :: "(shown \<Rightarrow> error option) \<Rightarrow> data \<Rightarrow> error + data" where
  \<comment> \<open>lines 138 to 193\<close>
  "overview_tab present d =
     (case analysis d of
        None \<Rightarrow> Inr d
      | Some df \<Rightarrow>
          and_then (display present (TotalRequests (total_requests df))) (\<lambda>_.
          and_then (fulfillment_rate df) (\<lambda>rate.
          and_then (display_if present FulfillmentRate rate) (\<lambda>_.
          and_then (unique_languages df) (\<lambda>uniq.
          and_then (display_if present UniqueLanguages uniq) (\<lambda>_.
          and_then (unfulfilled df) (\<lambda>unf.
          and_then (display_if present UnfulfilledRequests unf) (\<lambda>_.
          and_then (top_languages df) (\<lambda>top.
          and_then (display_if present TopLanguages top) (\<lambda>_.
          and_then (status_counts df) (\<lambda>pie.
          and_then (display_if present StatusDistribution pie) (\<lambda>_.
          Inr d))))))))))))"

definition gap_languages :: "dataframe \<Rightarrow> error + (cell \<times> int) list option" where
  \<comment> \<open>lines 234 to 237\<close>
  "gap_languages df =
     (if ''Has Linguist?'' \<in> set (columns df) then
        (case getitem df ''Has Linguist?'' of
           Inl e \<Rightarrow> Inl e
         | Inr has \<Rightarrow>
             let no_linguist_df = select_rows df (map (\<lambda>c. c = Str ''NO'') has)
             in if rows no_linguist_df \<noteq> [] then
                  (case getitem no_linguist_df ''Language'' of
                     Inl e \<Rightarrow> Inl e
                   | Inr langs \<Rightarrow> Inr (Some (take 15 (value_counts langs))))
                else Inr None)
      else Inr None)"

definition filter_status :: "string \<Rightarrow> dataframe \<Rightarrow> error + dataframe" where
  \<comment> \<open>lines 212 and 213\<close>
  "filter_status status_filter language_stats =
     (if status_filter \<noteq> ''All'' \<and> ''Status'' \<in> set (columns language_stats) then
        (case getitem language_stats ''Status'' of
           Inl e \<Rightarrow> Inl e
         | Inr st \<Rightarrow> Inr (select_rows language_stats (map (\<lambda>c. c = Str status_filter) st)))
      else Inr language_stats)"

definition language_tab :: "(shown \<Rightarrow> error option) \<Rightarrow> string \<Rightarrow> data \<Rightarrow> error + data" where
  \<comment> \<open>lines 199 to 245\<close>
  "language_tab present status_filter d =
     (case analysis d of
        None \<Rightarrow> Inr d
      | Some df \<Rightarrow>
          and_then (process_language_stats df) (\<lambda>language_stats.
          and_then (filter_status status_filter language_stats) (\<lambda>filtered.
          and_then (display present (LanguageTable filtered)) (\<lambda>_.
          and_then (gap_languages df) (\<lambda>gaps.
          and_then (display_if present GapLanguages gaps) (\<lambda>_.
          Inr d))))))"

definition dt_month :: "(int \<Rightarrow> string) \<Rightarrow> cell \<Rightarrow> cell" where
  \<comment> \<open>\<^verbatim>\<open>.dt.to_period('M').astype(str)\<close> on one value\<close>
  "dt_month month c = (case c of Tstamp t \<Rightarrow> Str (month t) | _ \<Rightarrow> Str ''NaT'')"

definition groupby_size :: "cell list \<Rightarrow> (string \<times> int) list" where
  \<comment> \<open>\<^verbatim>\<open>groupby(key).size()\<close> for a key column of texts: one entry for each text, the
      texts in ascending order\<close>
  "groupby_size keys =
     (let texts = concat (map (\<lambda>c. case c of Str m \<Rightarrow> [m] | _ \<Rightarrow> []) keys)
      in map (\<lambda>m. (m, int (count_list texts m))) (sort (remdups texts)))"

definition time_charts :: "library \<Rightarrow> dataframe \<Rightarrow> error + unit" where
  \<comment> \<open>lines 262 to 291, on the master table after the conversion\<close>
  "time_charts lib df =
     and_then (dropna df ''Row Added'') (\<lambda>df_time.
     and_then (series df_time ''Row Added'') (\<lambda>ts.
     and_then (assign df_time ''Month'' (map (dt_month (lib_month lib)) ts)) (\<lambda>df_time.
     and_then (series df_time ''Month'') (\<lambda>months.
     and_then (display (lib_present lib) (MonthlyVolume (groupby_size months))) (\<lambda>_.
     and_then (day_counts df_time) (\<lambda>counts.
     display (lib_present lib) (DayVolume counts)))))))"

definition priority_chart :: "library \<Rightarrow> dataframe \<Rightarrow> error + unit" where
  \<comment> \<open>lines 294 to 306\<close>
  "priority_chart lib df =
     and_then (series df ''Priority'') (\<lambda>prio.
     display (lib_present lib) (PriorityDistribution (value_counts prio)))"

definition trends_tab :: "library \<Rightarrow> data \<Rightarrow> error + data" where
  \<comment> \<open>lines 251 to 306: \<^verbatim>\<open>df = data['master']\<close> is the loaded table itself, and
      \<^verbatim>\<open>df[col] = ...\<close> assigns into it\<close>
  "trends_tab lib d =
     (case master d of
        None \<Rightarrow> Inr d
      | Some df0 \<Rightarrow>
          and_then (convert_dates (lib_parse lib) df0 date_columns) (\<lambda>df.
          and_then (if ''Row Added'' \<in> set (columns df) then time_charts lib df else Inr ()) (\<lambda>_.
          and_then (if ''Priority'' \<in> set (columns df) then priority_chart lib df else Inr ()) (\<lambda>_.
          Inr (d\<lparr>master := Some df\<rparr>)))))"

definition location_counts :: "dataframe \<Rightarrow> error + (cell \<times> int) list option" where
  \<comment> \<open>lines 343 to 346\<close>
  "location_counts df =
     (if ''Location'' \<in> set (columns df) \<or> ''Notes'' \<in> set (columns df) then
        (let location_col = (if ''Location'' \<in> set (columns df) then ''Location'' else ''Notes'')
         in case getitem df location_col of
              Inl e \<Rightarrow> Inl e
            | Inr locs \<Rightarrow> Inr (Some (take 10 (value_counts locs))))
      else Inr None)"

definition gap_tab :: "(shown \<Rightarrow> error option) \<Rightarrow> data \<Rightarrow> error + data" where
  \<comment> \<open>lines 312 to 355\<close>
  "gap_tab present d =
     (case analysis d of
        None \<Rightarrow> Inr d
      | Some df \<Rightarrow>
          and_then (gap_analysis df) (\<lambda>gaps.
          and_then (display_if present CriticalGaps gaps) (\<lambda>_.
          and_then (location_counts df) (\<lambda>locs.
          and_then (display_if present Locations locs) (\<lambda>_.
          Inr d)))))"

datatype search_outcome = NoSearch | OutsideFragment | Matches dataframe

definition reports_tab :: "(int \<Rightarrow> string) \<Rightarrow> string \<Rightarrow> data \<Rightarrow> error + data \<times> search_outcome" where
  \<comment> \<open>lines 402 to 406; \<open>OutsideFragment\<close>: the search term is a pattern that the model
      of regular expressions does not cover\<close>
  "reports_tab fmt search_term d =
     (if search_term \<noteq> [] then
        (case analysis d of
           None \<Rightarrow> Inr (d, NoSearch)
         | Some df \<Rightarrow>
             (case search_records fmt search_term df of
                None \<Rightarrow> Inr (d, OutsideFragment)
              | Some found \<Rightarrow> Inr (d, Matches found)))
      else Inr (d, NoSearch))"

definition selected_data :: "string \<Rightarrow> data \<Rightarrow> dataframe option" where
  \<comment> \<open>lines 391 to 396\<close>
  "selected_data data_selection d =
     (if data_selection = ''Master Data'' \<and> master d \<noteq> None then master d
      else if data_selection = ''Analysis Data'' \<and> analysis d \<noteq> None then analysis d
      else if data_selection = ''Linguist Data'' \<and> linguists d \<noteq> None then linguists d
      else None)"

definition show_matches :: "(shown \<Rightarrow> error option) \<Rightarrow> search_outcome \<Rightarrow> error + unit" where
  \<comment> \<open>lines 408 to 412\<close>
  "show_matches present outcome =
     (case outcome of
        NoSearch \<Rightarrow> Inr ()
      | OutsideFragment \<Rightarrow> Inl OutsideModel
      | Matches found \<Rightarrow> (if rows found \<noteq> [] then display present (SearchResults found) else Inr ()))"

definition detailed_reports_tab :: "library \<Rightarrow> ui \<Rightarrow> data \<Rightarrow> error + data" where
  \<comment> \<open>lines 359 to 412\<close>
  "detailed_reports_tab lib u d =
     and_then (if ui_download u then display_if (lib_present lib) Download (analysis d) else Inr ()) (\<lambda>_.
     and_then (display_if (lib_present lib) RawData (selected_data (ui_data_selection u) d)) (\<lambda>_.
     and_then (reports_tab (lib_fmt lib) (ui_search_term u) d) (\<lambda>(d', outcome).
     and_then (show_matches (lib_present lib) outcome) (\<lambda>_.
     Inr d'))))"

definition dashboard :: "library \<Rightarrow> ui \<Rightarrow> data \<Rightarrow> error + data" where
  \<comment> \<open>lines 120 to 412: the five tabs in the order of the script, when a master file or
      an analysis file was uploaded\<close>
  "dashboard lib u d =
     (if master d \<noteq> None \<or> analysis d \<noteq> None then
        and_then (overview_tab (lib_present lib) d) (\<lambda>d1.
        and_then (language_tab (lib_present lib) (ui_status_filter u) d1) (\<lambda>d2.
        and_then (trends_tab lib d2) (\<lambda>d3.
        and_then (gap_tab (lib_present lib) d3) (\<lambda>d4.
        detailed_reports_tab lib u d4))))
      else Inr d)"

section \<open>Example tables\<close>

definition scenario :: dataframe where
  \<comment> \<open>the analysis table of the scenario in section 8 of the spec\<close>
  "scenario =
     \<lparr>columns = [''Language'', ''Has Linguist?''],
      rows = [[Str ''Spanish'', Str ''YES''], [Str ''Spanish'', Str ''NO'']]
             @ replicate 6 [Str ''Farsi'', Str ''NO'']
             @ replicate 2 [Str ''Klingon'', Str ''NO'']\<rparr>"

definition mixed_answers :: dataframe where
  \<comment> \<open>answers other than the two exact words\<close>
  "mixed_answers =
     \<lparr>columns = [''Language'', ''Has Linguist?''],
      rows = [[Str ''Spanish'', Str ''YES''], [Str ''Spanish'', Str ''yes'']]
             @ replicate 5 [Str ''Farsi'', Str ''NO'']
             @ replicate 2 [Str ''Farsi'', Str ''no'']
             @ [[Str ''Farsi'', NaN], [Str ''Dari'', Str ''Yes'']]\<rparr>"

definition unlabelled_gaps :: dataframe where
  \<comment> \<open>an analysis sheet with six unfulfilled requests and no \<^verbatim>\<open>Language\<close> column\<close>
  "unlabelled_gaps =
     \<lparr>columns = [''Has Linguist?'', ''Notes''], rows = replicate 6 [Str ''NO'', Str ''Court A'']\<rparr>"

definition no_requests :: dataframe where
  \<comment> \<open>a sheet with its header row only\<close>
  "no_requests = \<lparr>columns = [''Language'', ''Has Linguist?''], rows = []\<rparr>"

definition no_language :: dataframe where
  \<comment> \<open>an analysis sheet without the \<^verbatim>\<open>Language\<close> column\<close>
  "no_language = \<lparr>columns = [''Has Linguist?''], rows = [[Str ''NO'']]\<rparr>"

definition readable :: "xl_file option \<Rightarrow> bool" where
  \<comment> \<open>no file was uploaded, or its first sheet can be read\<close>
  "readable file = (case file of None \<Rightarrow> True | Some f \<Rightarrow> \<not> isl (read_excel f None))"

definition reads_no_text :: "cell list \<Rightarrow> cell \<Rightarrow> int option" where
  \<comment> \<open>the reader of dates on a value that is not a date\<close>
  "reads_no_text col c = None"

definition prints_nothing :: "int \<Rightarrow> string" where
  \<comment> \<open>a printer of timestamps, for tables that hold none\<close>
  "prints_nothing t = []"

definition cover_workbook :: xl_file where
  \<comment> \<open>a workbook with the historical data on its second sheet and no \<^verbatim>\<open>Summary\<close> sheet\<close>
  "cover_workbook = Workbook [(''Cover'', no_requests), (''All Historical Data'', scenario)]"

definition added_log :: dataframe where
  \<comment> \<open>a master table: two requests on Thursday 1970-01-01, one on the Friday after, one
      whose date cell holds a remark and one with no date\<close>
  "added_log =
     \<lparr>columns = [''COI'', ''Row Added''],
      rows = [[Str ''A-1'', Tstamp 0], [Str ''A-2'', Tstamp 86400000000000],
              [Str ''A-3'', Tstamp 3600000000000], [Str ''A-4'', Str ''pending''], [Str ''A-5'', NaN]]\<rparr>"

definition priority_log :: dataframe where
  \<comment> \<open>a master table without the column \<^verbatim>\<open>Row Added\<close>\<close>
  "priority_log = \<lparr>columns = [''COI'', ''Priority''], rows = [[Str ''A-1'', Str ''URGENT'']]\<rparr>"

definition doubled_workbook :: xl_file where
  \<comment> \<open>a master workbook with the headers \<^verbatim>\<open>Row Added\<close> and \<^verbatim>\<open>Row Added\<close> followed by a
      blank\<close>
  "doubled_workbook =
     Workbook [(''Sheet1'', \<lparr>columns = [''Row Added'', ''Row Added ''],
                             rows = [[Tstamp 0, Tstamp 86400000000000]]\<rparr>)]"

definition requests :: dataframe where
  \<comment> \<open>an analysis table with a column of integers and a text column with a gap\<close>
  "requests =
     \<lparr>columns = [''Language'', ''COI'', ''Requester''],
      rows = [[Str ''Spanish'', Num 4021, Str ''Court A''], [Str ''SPANISH'', Num 17, NaN],
              [Str ''Farsi'', Num 305, Str ''Court B'']]\<rparr>"

definition loaded :: "dataframe \<Rightarrow> dataframe \<Rightarrow> data" where
  \<comment> \<open>the state after a master file and an analysis file were loaded\<close>
  "loaded m a = \<lparr>master = Some m, analysis = Some a, summary = None, linguists = None\<rparr>"

definition january_1970 :: "int \<Rightarrow> string" where
  \<comment> \<open>the month of a timestamp of January 1970\<close>
  "january_1970 t = ''1970-01''"

definition draws_everything :: "shown \<Rightarrow> error option" where
  \<comment> \<open>a presentation that draws each item it is given\<close>
  "draws_everything s = None"

definition example_library :: library where
  "example_library =
     \<lparr>lib_parse = reads_no_text, lib_month = january_1970, lib_fmt = prints_nothing,
      lib_present = draws_everything\<rparr>"

definition example_ui :: ui where
  "example_ui =
     \<lparr>ui_status_filter = ''All'', ui_download = False, ui_data_selection = ''Master Data'',
      ui_search_term = ''farsi''\<rparr>"

definition example_run :: "error + data" where
  \<comment> \<open>a run on \<open>added_log\<close> and \<open>scenario\<close>\<close>
  "example_run = dashboard example_library example_ui (loaded added_log scenario)"

definition added_log_converted :: dataframe where
  \<comment> \<open>\<open>added_log\<close> after the trends tab\<close>
  "added_log_converted =
     added_log\<lparr>rows := [[Str ''A-1'', Tstamp 0], [Str ''A-2'', Tstamp 86400000000000],
                         [Str ''A-3'', Tstamp 3600000000000], [Str ''A-4'', NaN], [Str ''A-5'', NaN]]\<rparr>"

section \<open>Properties of columns and of counting\<close>

lemma col_index_None: "col_index c cs = None \<longleftrightarrow> c \<notin> set cs"
  by (induction cs) auto

lemma col_index_Some: "col_index c cs = Some i \<Longrightarrow> i < length cs \<and> cs ! i = c"
  by (induction cs arbitrary: i) (auto split: if_splits)

lemma col_index_present: "c \<in> set cs \<Longrightarrow> \<exists>i. col_index c cs = Some i"
  using col_index_None [of c cs] by (cases "col_index c cs") auto

lemma set_first_seen: "set (first_seen xs) = set xs"
  by (simp add: first_seen_def)

lemma distinct_first_seen: "distinct (first_seen xs)"
  by (simp add: first_seen_def)

lemma count_list_filter: "P v \<Longrightarrow> count_list (filter P xs) v = count_list xs v"
  by (induction xs) auto

lemma set_value_counts:
  "set (value_counts xs) = (\<lambda>v. (v, int (count_list xs v))) ` (set xs - {NaN})"
  by (auto simp: value_counts_def Let_def set_first_seen count_list_filter)

lemma keys_value_counts: "fst ` set (value_counts xs) = set xs - {NaN}"
  by (force simp: set_value_counts)

lemma distinct_value_counts: "distinct (map fst (value_counts xs))"
proof -
  let ?ys = "filter (\<lambda>c. c \<noteq> NaN) xs"
  let ?ps = "map (\<lambda>v. (v, int (count_list ?ys v))) (first_seen ?ys)"
  have "distinct (map fst ?ps)"
    by (simp add: o_def distinct_first_seen)
  then have "distinct (map fst (sort_key (\<lambda>p. - snd p) ?ps))"
    using mset_eq_imp_distinct_iff [of "map fst (sort_key (\<lambda>p. - snd p) ?ps)" "map fst ?ps"]
    by (simp only: mset_map mset_sort)
  then show ?thesis by (simp add: value_counts_def Let_def)
qed

lemma value_counts_desc: "sorted_wrt (\<lambda>a b. a \<ge> b) (map snd (value_counts xs))"
proof -
  have "sorted (map (\<lambda>p. - snd p) (value_counts xs))"
    unfolding value_counts_def Let_def by (rule sorted_sort_key)
  then show ?thesis
    by (simp add: sorted_wrt_map)
qed

lemma sum_list_sort_key:
  fixes f :: "'a \<Rightarrow> int"
  shows "sum_list (map f (sort_key k xs)) = sum_list (map f xs)"
proof -
  have "mset (map f (sort_key k xs)) = mset (map f xs)" by simp
  then have "sum_mset (mset (map f (sort_key k xs))) = sum_mset (mset (map f xs))"
    by (rule arg_cong)
  then show ?thesis by (simp only: sum_mset_sum_list)
qed

lemma sum_value_counts:
  "sum_list (map snd (value_counts xs)) = int (length (filter (\<lambda>c. c \<noteq> NaN) xs))"
proof -
  let ?ys = "filter (\<lambda>c. c \<noteq> NaN) xs"
  let ?ps = "map (\<lambda>v. (v, int (count_list ?ys v))) (first_seen ?ys)"
  have "sum_list (map snd (sort_key (\<lambda>p. - snd p) ?ps)) = sum_list (map snd ?ps)"
    by (rule sum_list_sort_key)
  also have "\<dots> = int (sum_list (map (count_list ?ys) (first_seen ?ys)))"
    using sum_list_of_nat [of "map (count_list ?ys) (first_seen ?ys)", where ?'a = int]
    by (simp add: o_def)
  also have "sum_list (map (count_list ?ys) (first_seen ?ys)) = sum (count_list ?ys) (set ?ys)"
    by (simp add: sum_list_distinct_conv_sum_set distinct_first_seen set_first_seen)
  also have "\<dots> = length ?ys"
    by (rule sum_count_set) auto
  finally show ?thesis by (simp add: value_counts_def Let_def)
qed

section \<open>Properties of the gap analysis\<close>

lemma getitem_present:
  "c \<in> set (columns df) \<Longrightarrow> getitem df c = Inr (map (field df c) (rows df))"
  using col_index_present [of c "columns df"]
  by (auto simp: getitem_def field_def)

lemma filter_zip_map: "map fst (filter snd (zip xs (map f xs))) = filter f xs"
  by (induction xs) auto

lemma rows_select_rows:
  "rows (select_rows df (map h (rows df))) = filter h (rows df)"
  by (simp add: select_rows_def filter_zip_map)

lemma columns_select_rows: "columns (select_rows df keep) = columns df"
  by (simp add: select_rows_def)

lemma field_select_rows: "field (select_rows df keep) c = field df c"
  by (simp add: field_def fun_eq_iff columns_select_rows)

lemma count_list_map_filter:
  "count_list (map g (filter P xs)) l = length (filter (\<lambda>r. P r \<and> g r = l) xs)"
  by (induction xs) auto

lemma count_no_linguist_languages:
  "int (count_list (no_linguist_languages df) l) = unfulfilled_requests df l"
  by (simp add: no_linguist_languages_def unfulfilled_requests_def count_list_map_filter)

lemma gap_analysis_eq:
  assumes "''Has Linguist?'' \<in> set (columns df)" and "''Language'' \<in> set (columns df)"
  shows "gap_analysis df =
           Inr (if no_linguist_languages df \<noteq> [] then Some (gap_rows (no_linguist_languages df)) else None)"
proof -
  let ?keep = "map (\<lambda>c. c = Str ''NO'') (map (field df ''Has Linguist?'') (rows df))"
  have keep: "?keep = map (\<lambda>r. field df ''Has Linguist?'' r = Str ''NO'') (rows df)"
    by simp
  have sel: "rows (select_rows df ?keep) = filter (\<lambda>r. field df ''Has Linguist?'' r = Str ''NO'') (rows df)"
    unfolding keep by (rule rows_select_rows)
  have lang: "getitem (select_rows df ?keep) ''Language'' = Inr (no_linguist_languages df)"
    using assms(2) getitem_present [of "''Language''" "select_rows df ?keep"]
    by (simp only: columns_select_rows field_select_rows sel no_linguist_languages_def)
  have empty: "rows (select_rows df ?keep) = [] \<longleftrightarrow> no_linguist_languages df = []"
    by (simp only: sel no_linguist_languages_def map_is_Nil_conv)
  show ?thesis
    unfolding gap_analysis_def
    by (simp only: assms(1) getitem_present [OF assms(1)] if_True sum.case Let_def lang empty
        gap_rows_def) simp
qed

lemma gap_analysis_cases:
  assumes "gap_analysis df = Inr (Some g)"
  shows "\<exists>langs. g = gap_rows langs"
  using assms
  by (auto simp: gap_analysis_def gap_rows_def Let_def split: if_splits sum.splits)

lemma set_gap_rows:
  "set (gap_rows langs) =
     (\<lambda>l. (l, int (count_list langs l), priority (int (count_list langs l)))) `
       {l \<in> set langs. l \<noteq> NaN \<and> 5 \<le> int (count_list langs l)}"
  by (auto simp: gap_rows_def set_value_counts image_iff)

lemma fst_gap_rows: "map fst (gap_rows langs) = map fst (filter (\<lambda>p. snd p \<ge> 5) (value_counts langs))"
  by (simp add: gap_rows_def o_def split_def)

lemma counts_gap_rows:
  "map (fst \<circ> snd) (gap_rows langs) = filter (\<lambda>n. n \<ge> 5) (map snd (value_counts langs))"
  by (simp add: gap_rows_def o_def split_def filter_map)

lemma distinct_gap_rows: "distinct (map fst (gap_rows langs))"
  unfolding fst_gap_rows by (rule distinct_map_filter) (rule distinct_value_counts)

lemma gap_rows_desc: "sorted_wrt (\<lambda>a b. a \<ge> b) (map (fst \<circ> snd) (gap_rows langs))"
  unfolding counts_gap_rows by (rule sorted_wrt_filter) (rule value_counts_desc)

lemma count_list_pos_iff: "0 < count_list xs x \<longleftrightarrow> x \<in> set xs"
  using count_list_0_iff [of xs x] by auto

lemma keys_gap_rows:
  "fst ` set (gap_rows langs) = {l \<in> set langs. l \<noteq> NaN \<and> 5 \<le> int (count_list langs l)}"
  by (simp add: set_gap_rows image_image)

lemma gap_rows_entry:
  assumes "(l, n, p) \<in> set (gap_rows langs)"
  shows "n = int (count_list langs l) \<and> 5 \<le> n \<and> p = priority n"
  using assms unfolding set_gap_rows by blast

lemma priority_tiers:
  "5 \<le> n \<Longrightarrow> priority n \<noteq> ''MEDIUM'' \<and> (10 \<le> n \<longrightarrow> priority n = ''CRITICAL'') \<and> (n < 10 \<longrightarrow> priority n = ''HIGH'')"
  by (simp add: priority_def)

lemma gap_entries_result:
  "gap_entries (if langs \<noteq> [] then Some (gap_rows langs) else None) = gap_rows langs"
  by (cases langs) (simp_all add: gap_entries_def gap_rows_def value_counts_def first_seen_def)

text \<open>
  What the gap analysis returns on a table that has both columns it reads.
\<close>

lemma gap_analysis_with_language:
  assumes "''Has Linguist?'' \<in> set (columns df)" and "''Language'' \<in> set (columns df)"
  shows "\<exists>r. gap_analysis df = Inr r \<and>
           fst ` set (gap_entries r) = {l. l \<noteq> NaN \<and> 5 \<le> unfulfilled_requests df l} \<and>
           distinct (map fst (gap_entries r)) \<and>
           (\<forall>(l, n, p) \<in> set (gap_entries r).
              n = unfulfilled_requests df l \<and> 5 \<le> n \<and>
              (10 \<le> n \<longrightarrow> p = ''CRITICAL'') \<and> (n < 10 \<longrightarrow> p = ''HIGH'')) \<and>
           sorted_wrt (\<lambda>a b. a \<ge> b) (map (fst \<circ> snd) (gap_entries r))"
proof -
  define langs where "langs = no_linguist_languages df"
  define r where "r = (if langs \<noteq> [] then Some (gap_rows langs) else None)"
  have count: "int (count_list langs l) = unfulfilled_requests df l" for l
    unfolding langs_def by (rule count_no_linguist_languages)
  have entries: "gap_entries r = gap_rows langs"
    unfolding r_def by (rule gap_entries_result)
  have res: "gap_analysis df = Inr r"
    unfolding r_def langs_def by (rule gap_analysis_eq [OF assms])
  have pos: "l \<in> set langs" if "5 \<le> unfulfilled_requests df l" for l
  proof -
    from that have "0 < count_list langs l" using count [of l] by linarith
    then show ?thesis by (simp add: count_list_pos_iff)
  qed
  have 1: "fst ` set (gap_entries r) = {l. l \<noteq> NaN \<and> 5 \<le> unfulfilled_requests df l}"
    unfolding entries keys_gap_rows count using pos by blast
  have 2: "distinct (map fst (gap_entries r))"
    unfolding entries by (rule distinct_gap_rows)
  have 3: "\<forall>(l, n, p) \<in> set (gap_entries r).
              n = unfulfilled_requests df l \<and> 5 \<le> n \<and>
              (10 \<le> n \<longrightarrow> p = ''CRITICAL'') \<and> (n < 10 \<longrightarrow> p = ''HIGH'')"
  proof (clarify, goal_cases)
    case (1 l n p)
    then have e: "n = int (count_list langs l) \<and> 5 \<le> n \<and> p = priority n"
      unfolding entries by (rule gap_rows_entry)
    then show ?case using priority_tiers [of n] count [of l] by simp
  qed
  have 4: "sorted_wrt (\<lambda>a b. a \<ge> b) (map (fst \<circ> snd) (gap_entries r))"
    unfolding entries by (rule gap_rows_desc)
  from res 1 2 3 4 show ?thesis by (intro exI [of _ r] conjI)
qed

text \<open>
  Claim C2. Whatever the table, an entry that the gap analysis returns never has the
  priority \<^verbatim>\<open>MEDIUM\<close>: its count passed the filter \<^verbatim>\<open>>= 5\<close> before the priority was
  computed from it.
\<close>

theorem medium_unreachable:
  assumes "gap_analysis df = Inr r" and "(l, n, p) \<in> set (gap_entries r)"
  shows "p \<noteq> ''MEDIUM'' \<and> 5 \<le> n \<and> p = priority n"
proof (cases r)
  case None
  with assms(2) show ?thesis by (simp add: gap_entries_def)
next
  case (Some g)
  with assms(1) obtain langs where "g = gap_rows langs"
    using gap_analysis_cases by blast
  with assms(2) Some have "(l, n, p) \<in> set (gap_rows langs)"
    by (simp add: gap_entries_def)
  then have "n = int (count_list langs l) \<and> 5 \<le> n \<and> p = priority n"
    by (rule gap_rows_entry)
  then show ?thesis using priority_tiers [of n] by simp
qed

section \<open>Properties of the overview metrics\<close>

lemma length_filter_map: "length (filter P (map g xs)) = length (filter (\<lambda>x. P (g x)) xs)"
  by (induction xs) auto

lemma fulfilled_present:
  assumes "''Has Linguist?'' \<in> set (columns df)"
  shows "fulfilled df =
           Inr (Some (int (length (filter (\<lambda>r. field df ''Has Linguist?'' r = Str ''YES'') (rows df)))))"
  using assms by (simp add: fulfilled_def getitem_present o_def)

lemma unfulfilled_present:
  assumes "''Has Linguist?'' \<in> set (columns df)"
  shows "unfulfilled df =
           Inr (Some (int (length (filter (\<lambda>r. field df ''Has Linguist?'' r = Str ''NO'') (rows df)))))"
  using assms by (simp add: unfulfilled_def getitem_present o_def)

lemma length_filter_mono:
  "(\<And>x. x \<in> set xs \<Longrightarrow> Q x \<Longrightarrow> R x) \<Longrightarrow> length (filter Q xs) \<le> length (filter R xs)"
  by (induction xs) auto

lemma length_filter_strict:
  assumes "\<And>x. x \<in> set xs \<Longrightarrow> Q x \<Longrightarrow> R x" and "y \<in> set xs" and "R y" and "\<not> Q y"
  shows "length (filter Q xs) < length (filter R xs)"
  using assms
proof (induction xs)
  case Nil
  then show ?case by simp
next
  case (Cons x xs)
  have le: "length (filter Q xs) \<le> length (filter R xs)"
    using Cons.prems(1) by (intro length_filter_mono) auto
  show ?case
  proof (cases "y = x")
    case True
    with Cons.prems le show ?thesis by simp
  next
    case False
    with Cons.prems have "y \<in> set xs" by simp
    with Cons have "length (filter Q xs) < length (filter R xs)" by auto
    with Cons.prems(1) [of x] show ?thesis by auto
  qed
qed

lemma yes_no_le:
  "length (filter (\<lambda>r. g r = Str ''YES'') xs) + length (filter (\<lambda>r. g r = Str ''NO'') xs) \<le> length xs"
proof -
  have "length (filter (\<lambda>r. g r = Str ''NO'') xs) \<le> length (filter (\<lambda>r. \<not> g r = Str ''YES'') xs)"
    by (rule length_filter_mono) simp
  with sum_length_filter_compl [of "\<lambda>r. g r = Str ''YES''" xs] show ?thesis by linarith
qed

lemma yes_no_less:
  assumes "y \<in> set xs" and "g y \<noteq> Str ''YES''" and "g y \<noteq> Str ''NO''"
  shows "length (filter (\<lambda>r. g r = Str ''YES'') xs) + length (filter (\<lambda>r. g r = Str ''NO'') xs) < length xs"
proof -
  have "length (filter (\<lambda>r. g r = Str ''NO'') xs) < length (filter (\<lambda>r. \<not> g r = Str ''YES'') xs)"
    using assms by (intro length_filter_strict [of xs _ _ y]) simp_all
  with sum_length_filter_compl [of "\<lambda>r. g r = Str ''YES''" xs] show ?thesis by linarith
qed

lemma fulfillment_rate_present:
  assumes "''Has Linguist?'' \<in> set (columns df)"
  shows "fulfillment_rate df =
           Inr (Some (Finite (if rows df = [] then 0
              else of_int (int (length (filter (\<lambda>r. field df ''Has Linguist?'' r = Str ''YES'') (rows df))))
                   / of_int (len df) * 100)))"
  using assms
  by (simp add: fulfillment_rate_def fulfilled_present total_requests_def len_def
      true_divide_def times_def)

text \<open>
  Claim C4. On a table with the column \<^verbatim>\<open>Has Linguist?\<close> the fulfillment rate is a
  finite number (never NaN, never infinite): 0 on a table without rows, and otherwise
  the number of rows answered \<^verbatim>\<open>YES\<close> divided by the number of rows, times 100. It lies
  between 0 and 100.
\<close>

theorem fulfillment_rate_range:
  assumes "''Has Linguist?'' \<in> set (columns df)"
  shows "\<exists>q. fulfillment_rate df = Inr (Some (Finite q)) \<and>
           (rows df = [] \<longrightarrow> q = 0) \<and>
           (rows df \<noteq> [] \<longrightarrow>
              q = of_int (int (length (filter (\<lambda>r. field df ''Has Linguist?'' r = Str ''YES'') (rows df))))
                  / of_int (len df) * 100) \<and>
           0 \<le> q \<and> q \<le> 100"
proof -
  define f where "f = length (filter (\<lambda>r. field df ''Has Linguist?'' r = Str ''YES'') (rows df))"
  define n where "n = length (rows df)"
  define q :: rat where "q = (if rows df = [] then 0 else of_int (int f) / of_int (len df) * 100)"
  have res: "fulfillment_rate df = Inr (Some (Finite q))"
    unfolding q_def f_def by (rule fulfillment_rate_present [OF assms])
  have fn: "f \<le> n" unfolding f_def n_def by (rule length_filter_le)
  have bounds: "0 \<le> q \<and> q \<le> 100"
  proof (cases "rows df = []")
    case True
    then show ?thesis by (simp add: q_def)
  next
    case False
    then have pos: "0 < n" by (simp add: n_def)
    define x :: rat where "x = of_nat f / of_nat n"
    have q: "q = x * 100" using False by (simp add: q_def len_def n_def x_def)
    have "x \<le> 1" using fn pos by (simp add: x_def)
    then have "x * 100 \<le> 1 * 100" by (rule mult_right_mono) simp
    moreover have "0 \<le> x" by (simp add: x_def)
    ultimately show ?thesis by (simp add: q)
  qed
  show ?thesis using res bounds by (intro exI [of _ q]) (simp add: q_def f_def)
qed

section \<open>Properties of the language statistics\<close>

lemma filter_distinct_key:
  "distinct (map fst ps) \<Longrightarrow>
   filter (\<lambda>p. fst p = k) ps = (case map_of ps k of None \<Rightarrow> [] | Some v \<Rightarrow> [(k, v)])"
proof (induction ps)
  case Nil
  then show ?case by simp
next
  case (Cons p ps)
  obtain a b where p: "p = (a, b)" by (cases p)
  show ?case
  proof (cases "a = k")
    case True
    with Cons.prems p have "k \<notin> fst ` set ps" by auto
    then have "filter (\<lambda>p. fst p = k) ps = []" by (auto simp: filter_empty_conv)
    with True p show ?thesis by simp
  next
    case False
    with Cons p show ?thesis by simp
  qed
qed

lemma merge_left_distinct:
  assumes "distinct (map fst right)"
  shows "merge_left left right =
           map (\<lambda>r. r @ [case map_of right (cell_at r 0) of None \<Rightarrow> NaN | Some s \<Rightarrow> Str s]) left"
proof -
  have "(case filter (\<lambda>p. fst p = cell_at r 0) right of
            [] \<Rightarrow> [r @ [NaN]]
          | m # ms \<Rightarrow> map (\<lambda>p. r @ [Str (snd p)]) (m # ms)) =
        [r @ [case map_of right (cell_at r 0) of None \<Rightarrow> NaN | Some s \<Rightarrow> Str s]]" for r
    by (simp add: filter_distinct_key [OF assms] split: option.split)
  then show ?thesis by (simp add: merge_left_def)
qed

lemma keys_groupby_apply:
  "map fst (groupby_apply keys vals f) = first_seen (filter (\<lambda>c. c \<noteq> NaN) keys)"
  by (simp add: groupby_apply_def o_def)

lemma distinct_groupby_apply: "distinct (map fst (groupby_apply keys vals f))"
  by (simp only: keys_groupby_apply distinct_first_seen)

lemma map_of_groupby_apply:
  assumes "k \<in> set keys" and "k \<noteq> NaN"
  shows "map_of (groupby_apply keys vals f) k =
           Some (f (map snd (filter (\<lambda>p. fst p = k) (zip keys vals))))"
proof -
  have "k \<in> set (first_seen (filter (\<lambda>c. c \<noteq> NaN) keys))"
    using assms by (simp add: set_first_seen)
  then show ?thesis
    unfolding groupby_apply_def by (simp add: map_of_map_restrict)
qed

lemma group_values:
  "set (map snd (filter (\<lambda>p. fst p = k) (zip (map g xs) (map h xs)))) =
     h ` {x \<in> set xs. g x = k}"
  by (induction xs) auto

lemma sourcing_group:
  "sourcing (map snd (filter (\<lambda>p. fst p = l)
       (zip (map (field df ''Language'') (rows df)) (map (field df ''Has Linguist?'') (rows df))))) =
   status_of df l"
  unfolding sourcing_def status_of_def group_values by (auto simp: image_iff)

lemma count_language:
  "int (count_list (map (field df ''Language'') (rows df)) l) =
     int (length (filter (\<lambda>r. field df ''Language'' r = l) (rows df)))"
  using count_list_map_filter [of "field df ''Language''" "\<lambda>r. True" "rows df" l] by simp

lemma stats_without_status:
  assumes "''Language'' \<in> set (columns df)" and "''Has Linguist?'' \<notin> set (columns df)"
  shows "process_language_stats df =
           Inr \<lparr>columns = [''Language'', ''Request Count''],
                rows = map (\<lambda>(l, n). [l, Num n]) (value_counts (map (field df ''Language'') (rows df)))\<rparr>"
  using assms by (simp add: process_language_stats_def getitem_present)

lemma stats_with_status:
  assumes "''Language'' \<in> set (columns df)" and "''Has Linguist?'' \<in> set (columns df)"
  shows "process_language_stats df =
           Inr \<lparr>columns = [''Language'', ''Request Count'', ''Status''],
                rows = map (\<lambda>(l, n). [l, Num n, Str (status_of df l)])
                          (value_counts (map (field df ''Language'') (rows df)))\<rparr>"
proof -
  let ?langs = "map (field df ''Language'') (rows df)"
  let ?has = "map (field df ''Has Linguist?'') (rows df)"
  let ?right = "groupby_apply ?langs ?has sourcing"
  have row: "(case p of (l, n) \<Rightarrow> [l, Num n]) @
               [case map_of ?right (cell_at (case p of (l, n) \<Rightarrow> [l, Num n]) 0) of
                  None \<Rightarrow> NaN | Some s \<Rightarrow> Str s] =
             (case p of (l, n) \<Rightarrow> [l, Num n, Str (status_of df l)])"
    if "p \<in> set (value_counts ?langs)" for p
  proof -
    obtain l n where p: "p = (l, n)" by (cases p)
    with that have "l \<in> set ?langs" and "l \<noteq> NaN"
      using keys_value_counts [of ?langs] by (force simp del: set_map)+
    then have "map_of ?right l = Some (status_of df l)"
      using map_of_groupby_apply [of l ?langs ?has sourcing] sourcing_group [of l df]
      by (simp del: set_map)
    with p show ?thesis by (simp add: cell_at_def)
  qed
  have "merge_left (map (\<lambda>(l, n). [l, Num n]) (value_counts ?langs)) ?right =
          map (\<lambda>(l, n). [l, Num n, Str (status_of df l)]) (value_counts ?langs)"
    unfolding merge_left_distinct [OF distinct_groupby_apply] map_map
    by (rule map_cong [OF refl]) (simp only: o_def row)
  then show ?thesis
    using assms by (simp add: process_language_stats_def getitem_present Let_def)
qed

lemma stats_pairs:
  assumes "''Language'' \<in> set (columns df)"
  shows "\<exists>out. process_language_stats df = Inr out \<and>
           map (\<lambda>r. (cell_at r 0, cell_at r 1)) (rows out) =
             map (\<lambda>p. (fst p, Num (snd p))) (value_counts (map (field df ''Language'') (rows df)))"
proof (cases "''Has Linguist?'' \<in> set (columns df)")
  case True
  show ?thesis
    unfolding stats_with_status [OF assms True]
    by (simp add: cell_at_def o_def split_def)
next
  case False
  show ?thesis
    unfolding stats_without_status [OF assms False]
    by (simp add: cell_at_def o_def split_def)
qed

lemma value_counts_entry:
  assumes "(l, n) \<in> set (value_counts xs)"
  shows "n = int (count_list xs l) \<and> l \<in> set xs \<and> l \<noteq> NaN"
  using assms unfolding set_value_counts by blast

lemma value_counts_nonneg:
  assumes "n \<in> set (map snd (value_counts xs))"
  shows "0 \<le> n"
proof -
  from assms obtain l where "(l, n) \<in> set (value_counts xs)" by auto
  then have "n = int (count_list xs l)" using value_counts_entry by blast
  then show ?thesis by simp
qed

lemma filter_no_nulls: "NaN \<notin> set xs \<Longrightarrow> filter (\<lambda>c. c \<noteq> NaN) xs = xs"
  by (induction xs) auto

text \<open>
  Claim C5. Without a \<^verbatim>\<open>Language\<close> column the language statistics are the empty
  frame, not an error. With it, each row of the result pairs a language with the number
  of rows of the table that hold it; the counts are not negative and descend; and when
  no \<^verbatim>\<open>Language\<close> cell is missing they add up to the number of rows of the table.
\<close>

theorem language_counts_total:
  "(''Language'' \<notin> set (columns df) \<longrightarrow> process_language_stats df = Inr empty_frame) \<and>
   (''Language'' \<in> set (columns df) \<longrightarrow>
      (\<exists>out ns. process_language_stats df = Inr out \<and>
         request_counts out = map Num ns \<and>
         (\<forall>row \<in> set (rows out).
            cell_at row 1 =
              Num (int (length (filter (\<lambda>r. field df ''Language'' r = cell_at row 0) (rows df))))) \<and>
         (\<forall>n \<in> set ns. 0 \<le> n) \<and>
         sorted_wrt (\<lambda>a b. a \<ge> b) ns \<and>
         ((\<forall>r \<in> set (rows df). field df ''Language'' r \<noteq> NaN) \<longrightarrow> sum_list ns = len df)))"
proof (intro conjI impI)
  assume "''Language'' \<notin> set (columns df)"
  then show "process_language_stats df = Inr empty_frame"
    by (simp add: process_language_stats_def)
next
  assume present: "''Language'' \<in> set (columns df)"
  define langs where "langs = map (field df ''Language'') (rows df)"
  define ns where "ns = map snd (value_counts langs)"
  from stats_pairs [OF present] obtain out where
    out: "process_language_stats df = Inr out" and
    pairs: "map (\<lambda>r. (cell_at r 0, cell_at r 1)) (rows out) =
              map (\<lambda>p. (fst p, Num (snd p))) (value_counts langs)"
    unfolding langs_def by blast
  have "map snd (map (\<lambda>r. (cell_at r 0, cell_at r 1)) (rows out)) =
          map snd (map (\<lambda>p. (fst p, Num (snd p))) (value_counts langs))"
    by (simp only: pairs)
  then have counts: "request_counts out = map Num ns"
    by (simp add: request_counts_def ns_def o_def)
  have each: "\<forall>row \<in> set (rows out).
            cell_at row 1 =
              Num (int (length (filter (\<lambda>r. field df ''Language'' r = cell_at row 0) (rows df))))"
  proof
    fix row assume "row \<in> set (rows out)"
    then have "(cell_at row 0, cell_at row 1) \<in> set (map (\<lambda>r. (cell_at r 0, cell_at r 1)) (rows out))"
      by (simp add: image_iff) blast
    then have "(cell_at row 0, cell_at row 1) \<in> set (map (\<lambda>p. (fst p, Num (snd p))) (value_counts langs))"
      by (simp only: pairs)
    then obtain l n where ln: "(l, n) \<in> set (value_counts langs)"
      and c0: "cell_at row 0 = l" and c1: "cell_at row 1 = Num n"
      by auto
    from value_counts_entry [OF ln] have "n = int (count_list langs l)" by simp
    with c0 c1 show "cell_at row 1 =
              Num (int (length (filter (\<lambda>r. field df ''Language'' r = cell_at row 0) (rows df))))"
      unfolding langs_def by (simp only: count_language)
  qed
  have nonneg: "\<forall>n \<in> set ns. 0 \<le> n"
    unfolding ns_def using value_counts_nonneg by blast
  have desc: "sorted_wrt (\<lambda>a b. a \<ge> b) ns"
    unfolding ns_def by (rule value_counts_desc)
  have total: "sum_list ns = len df" if "\<forall>r \<in> set (rows df). field df ''Language'' r \<noteq> NaN"
  proof -
    from that have "NaN \<notin> set langs" by (auto simp: langs_def)
    then have "filter (\<lambda>c. c \<noteq> NaN) langs = langs" by (rule filter_no_nulls)
    then show ?thesis
      by (simp add: ns_def sum_value_counts len_def langs_def)
  qed
  from out counts each nonneg desc total
  show "\<exists>out ns. process_language_stats df = Inr out \<and>
         request_counts out = map Num ns \<and>
         (\<forall>row \<in> set (rows out).
            cell_at row 1 =
              Num (int (length (filter (\<lambda>r. field df ''Language'' r = cell_at row 0) (rows df))))) \<and>
         (\<forall>n \<in> set ns. 0 \<le> n) \<and>
         sorted_wrt (\<lambda>a b. a \<ge> b) ns \<and>
         ((\<forall>r \<in> set (rows df). field df ''Language'' r \<noteq> NaN) \<longrightarrow> sum_list ns = len df)"
    by (intro exI [of _ out] exI [of _ ns] conjI impI)
qed

lemma stats_languages:
  assumes "''Language'' \<in> set (columns df)" and "''Has Linguist?'' \<in> set (columns df)"
  shows "\<exists>out. process_language_stats df = Inr out \<and>
           (\<lambda>row. cell_at row 0) ` set (rows out) = field df ''Language'' ` set (rows df) - {NaN} \<and>
           distinct (map (\<lambda>row. cell_at row 0) (rows out)) \<and>
           (\<forall>row \<in> set (rows out). cell_at row 2 = Str (status_of df (cell_at row 0)))"
proof -
  define langs where "langs = map (field df ''Language'') (rows df)"
  define out where "out = \<lparr>columns = [''Language'', ''Request Count'', ''Status''],
                rows = map (\<lambda>(l, n). [l, Num n, Str (status_of df l)]) (value_counts langs)\<rparr>"
  have res: "process_language_stats df = Inr out"
    unfolding out_def langs_def by (rule stats_with_status [OF assms])
  have first: "map (\<lambda>row. cell_at row 0) (rows out) = map fst (value_counts langs)"
    by (simp add: out_def cell_at_def o_def split_def)
  have "(\<lambda>row. cell_at row 0) ` set (rows out) = set (map (\<lambda>row. cell_at row 0) (rows out))"
    by simp
  also have "\<dots> = fst ` set (value_counts langs)" by (simp only: first set_map)
  also have "\<dots> = field df ''Language'' ` set (rows df) - {NaN}"
    by (simp add: keys_value_counts langs_def)
  finally have 1: "(\<lambda>row. cell_at row 0) ` set (rows out) =
                     field df ''Language'' ` set (rows df) - {NaN}" .
  have 2: "distinct (map (\<lambda>row. cell_at row 0) (rows out))"
    by (simp only: first distinct_value_counts)
  have 3: "\<forall>row \<in> set (rows out). cell_at row 2 = Str (status_of df (cell_at row 0))"
    by (auto simp: out_def cell_at_def)
  from res 1 2 3 show ?thesis by blast
qed

lemma gap_pairs:
  assumes "''Has Linguist?'' \<in> set (columns df)" and "''Language'' \<in> set (columns df)"
  shows "\<exists>g. gap_analysis df = Inr g \<and>
           (\<lambda>(l, n, p). (l, n)) ` set (gap_entries g) =
             (\<lambda>l. (l, unfulfilled_requests df l)) ` {l. l \<noteq> NaN \<and> 5 \<le> unfulfilled_requests df l}"
proof -
  define langs where "langs = no_linguist_languages df"
  define g where "g = (if langs \<noteq> [] then Some (gap_rows langs) else None)"
  have res: "gap_analysis df = Inr g"
    unfolding g_def langs_def by (rule gap_analysis_eq [OF assms])
  have entries: "gap_entries g = gap_rows langs"
    unfolding g_def by (rule gap_entries_result)
  have count: "int (count_list langs l) = unfulfilled_requests df l" for l
    unfolding langs_def by (rule count_no_linguist_languages)
  have pos: "l \<in> set langs" if "5 \<le> unfulfilled_requests df l" for l
  proof -
    from that have "0 < count_list langs l" using count [of l] by linarith
    then show ?thesis by (simp add: count_list_pos_iff)
  qed
  have dom: "{l \<in> set langs. l \<noteq> NaN \<and> 5 \<le> unfulfilled_requests df l} =
             {l. l \<noteq> NaN \<and> 5 \<le> unfulfilled_requests df l}"
    using pos by blast
  have "(\<lambda>(l, n, p). (l, n)) ` set (gap_rows langs) =
          (\<lambda>l. (l, unfulfilled_requests df l)) ` {l \<in> set langs. l \<noteq> NaN \<and> 5 \<le> unfulfilled_requests df l}"
    unfolding set_gap_rows count by (simp add: image_image)
  with res entries dom show ?thesis by simp
qed

text \<open>
  Claim C10. The column \<^verbatim>\<open>Has Linguist?\<close> is compared by equality of cells with the
  texts \<^verbatim>\<open>YES\<close> and \<^verbatim>\<open>NO\<close>. The fulfilled count is the number of rows whose cell is
  exactly \<^verbatim>\<open>YES\<close>, the unfulfilled count the number of rows whose cell is exactly \<^verbatim>\<open>NO\<close>;
  their sum is at most the number of rows, and less as soon as one row holds any other
  value. On a table that has the \<^verbatim>\<open>Language\<close> column too, the language statistics have
  one row for each language of the table, and its status is \<^verbatim>\<open>Sourceable\<close> exactly when
  one of the rows of that language is answered exactly \<^verbatim>\<open>YES\<close>; and the gap analysis
  returns exactly the languages with at least 5 rows answered exactly \<^verbatim>\<open>NO\<close>, each with
  that number of rows as its count.
\<close>

theorem has_linguist_exact:
  assumes "''Has Linguist?'' \<in> set (columns df)"
  shows "\<exists>f u. fulfilled df = Inr (Some f) \<and> unfulfilled df = Inr (Some u) \<and>
           f = int (length (filter (\<lambda>r. field df ''Has Linguist?'' r = Str ''YES'') (rows df))) \<and>
           u = int (length (filter (\<lambda>r. field df ''Has Linguist?'' r = Str ''NO'') (rows df))) \<and>
           f + u \<le> len df \<and>
           ((\<exists>r \<in> set (rows df). field df ''Has Linguist?'' r \<noteq> Str ''YES'' \<and>
                                  field df ''Has Linguist?'' r \<noteq> Str ''NO'') \<longrightarrow> f + u < len df) \<and>
           (''Language'' \<in> set (columns df) \<longrightarrow>
              (\<exists>out. process_language_stats df = Inr out \<and>
                 (\<lambda>row. cell_at row 0) ` set (rows out) =
                   field df ''Language'' ` set (rows df) - {NaN} \<and>
                 distinct (map (\<lambda>row. cell_at row 0) (rows out)) \<and>
                 (\<forall>row \<in> set (rows out). cell_at row 2 = Str (status_of df (cell_at row 0)))) \<and>
              (\<exists>g. gap_analysis df = Inr g \<and>
                 (\<lambda>(l, n, p). (l, n)) ` set (gap_entries g) =
                   (\<lambda>l. (l, unfulfilled_requests df l)) `
                     {l. l \<noteq> NaN \<and> 5 \<le> unfulfilled_requests df l}))"
proof -
  define f where "f = int (length (filter (\<lambda>r. field df ''Has Linguist?'' r = Str ''YES'') (rows df)))"
  define u where "u = int (length (filter (\<lambda>r. field df ''Has Linguist?'' r = Str ''NO'') (rows df)))"
  have 1: "fulfilled df = Inr (Some f)"
    unfolding f_def by (rule fulfilled_present [OF assms])
  have 2: "unfulfilled df = Inr (Some u)"
    unfolding u_def by (rule unfulfilled_present [OF assms])
  have 3: "f + u \<le> len df"
    using yes_no_le [of "field df ''Has Linguist?''" "rows df"]
    by (simp add: f_def u_def len_def)
  have 4: "f + u < len df"
    if "\<exists>r \<in> set (rows df). field df ''Has Linguist?'' r \<noteq> Str ''YES'' \<and>
                              field df ''Has Linguist?'' r \<noteq> Str ''NO''"
  proof -
    from that obtain r where "r \<in> set (rows df)"
      and "field df ''Has Linguist?'' r \<noteq> Str ''YES''"
      and "field df ''Has Linguist?'' r \<noteq> Str ''NO''" by blast
    then show ?thesis
      using yes_no_less [of r "rows df" "field df ''Has Linguist?''"]
      by (simp add: f_def u_def len_def)
  qed
  have 5: "(\<exists>out. process_language_stats df = Inr out \<and>
                 (\<lambda>row. cell_at row 0) ` set (rows out) =
                   field df ''Language'' ` set (rows df) - {NaN} \<and>
                 distinct (map (\<lambda>row. cell_at row 0) (rows out)) \<and>
                 (\<forall>row \<in> set (rows out). cell_at row 2 = Str (status_of df (cell_at row 0)))) \<and>
              (\<exists>g. gap_analysis df = Inr g \<and>
                 (\<lambda>(l, n, p). (l, n)) ` set (gap_entries g) =
                   (\<lambda>l. (l, unfulfilled_requests df l)) `
                     {l. l \<noteq> NaN \<and> 5 \<le> unfulfilled_requests df l})"
    if "''Language'' \<in> set (columns df)"
    using stats_languages [OF that assms] gap_pairs [OF assms that] by (rule conjI)
  from 1 2 3 4 5 show ?thesis
    by (intro exI [of _ f] exI [of _ u] conjI impI) (simp_all add: f_def u_def)
qed

section \<open>The scenario of the spec\<close>

lemma scenario_columns:
  "''Has Linguist?'' \<in> set (columns scenario)" "''Language'' \<in> set (columns scenario)"
  by (simp_all add: scenario_def)

lemma scenario_gaps: "gap_analysis scenario = Inr (Some [(Str ''Farsi'', 6, ''HIGH'')])"
  by code_simp

lemma scenario_rate: "fulfillment_rate scenario = Inr (Some (Finite 10))"
  by code_simp

lemma scenario_stats:
  "process_language_stats scenario =
     Inr \<lparr>columns = [''Language'', ''Request Count'', ''Status''],
          rows = [[Str ''Farsi'', Num 6, Str ''Not Sourceable''],
                  [Str ''Spanish'', Num 2, Str ''Sourceable''],
                  [Str ''Klingon'', Num 2, Str ''Not Sourceable'']]\<rparr>"
  by code_simp


theorem medium_unreachable_witness:
  "gap_analysis scenario = Inr (Some [(Str ''Farsi'', 6, ''HIGH'')]) \<and>
   (Str ''Farsi'', 6, ''HIGH'') \<in> set (gap_entries (Some [(Str ''Farsi'', 6, ''HIGH'')])) \<and>
   ''HIGH'' \<noteq> ''MEDIUM'' \<and> (5::int) \<le> 6 \<and> ''HIGH'' = priority 6"
proof -
  have e: "(Str ''Farsi'', 6, ''HIGH'') \<in> set (gap_entries (Some [(Str ''Farsi'', 6, ''HIGH'')]))"
    by (simp add: gap_entries_def)
  from medium_unreachable [OF scenario_gaps e] scenario_gaps e show ?thesis
    by (simp add: priority_def)
qed

lemma no_requests_rate: "fulfillment_rate no_requests = Inr (Some (Finite 0))"
  by code_simp

theorem fulfillment_rate_range_witness:
  "''Has Linguist?'' \<in> set (columns scenario) \<and> rows scenario \<noteq> [] \<and>
   fulfillment_rate scenario = Inr (Some (Finite 10)) \<and>
   (10::rat) = of_int (int (length (filter (\<lambda>r. field scenario ''Has Linguist?'' r = Str ''YES'')
                                       (rows scenario)))) / of_int (len scenario) * 100 \<and>
   (0::rat) \<le> 10 \<and> (10::rat) \<le> 100 \<and>
   ''Has Linguist?'' \<in> set (columns no_requests) \<and> rows no_requests = [] \<and>
   fulfillment_rate no_requests = Inr (Some (Finite 0))"
proof -
  have ne: "rows scenario \<noteq> []" by (simp add: scenario_def)
  have h: "''Has Linguist?'' \<in> set (columns no_requests)" by (simp add: no_requests_def)
  have e: "rows no_requests = []" by (simp add: no_requests_def)
  from fulfillment_rate_range [OF scenario_columns(1)] obtain q where
    "fulfillment_rate scenario = Inr (Some (Finite q))" and
    "rows scenario \<noteq> [] \<longrightarrow>
       q = of_int (int (length (filter (\<lambda>r. field scenario ''Has Linguist?'' r = Str ''YES'')
                                  (rows scenario)))) / of_int (len scenario) * 100" and
    "0 \<le> q" and "q \<le> 100"
    by blast
  moreover from fulfillment_rate_range [OF h] obtain q0 where
    "fulfillment_rate no_requests = Inr (Some (Finite q0))" and "rows no_requests = [] \<longrightarrow> q0 = 0"
    by blast
  ultimately show ?thesis
    using ne h e scenario_columns(1) by (simp add: scenario_rate)
qed

lemma no_language_column: "''Language'' \<notin> set (columns no_language)"
  by (simp add: no_language_def)

lemma scenario_no_nulls: "NaN \<notin> field scenario ''Language'' ` set (rows scenario)"
  by (simp add: scenario_def field_def cell_at_def)

theorem language_counts_total_witness:
  "''Language'' \<notin> set (columns no_language) \<and> process_language_stats no_language = Inr empty_frame \<and>
   ''Language'' \<in> set (columns scenario) \<and>
   NaN \<notin> field scenario ''Language'' ` set (rows scenario) \<and>
   (\<exists>out. process_language_stats scenario = Inr out \<and> request_counts out = map Num [6, 2, 2]) \<and>
   sum_list [6, 2, 2] = len scenario"
proof -
  from language_counts_total [of no_language] no_language_column
  have 1: "process_language_stats no_language = Inr empty_frame" by blast
  from language_counts_total [of scenario] scenario_columns(2) obtain out ns where
    out: "process_language_stats scenario = Inr out" and
    counts: "request_counts out = map Num ns" and
    total: "(\<forall>r \<in> set (rows scenario). field scenario ''Language'' r \<noteq> NaN) \<longrightarrow>
              sum_list ns = len scenario"
    by blast
  from out have "out = \<lparr>columns = [''Language'', ''Request Count'', ''Status''],
          rows = [[Str ''Farsi'', Num 6, Str ''Not Sourceable''],
                  [Str ''Spanish'', Num 2, Str ''Sourceable''],
                  [Str ''Klingon'', Num 2, Str ''Not Sourceable'']]\<rparr>"
    by (simp add: scenario_stats)
  with counts have "map Num ns = map Num [6, 2, 2]"
    by (simp add: request_counts_def cell_at_def)
  then have ns: "ns = [6, 2, 2]"
    by (auto simp: map_eq_Cons_conv)
  from total scenario_no_nulls have "sum_list ns = len scenario" by force
  with ns 1 out counts no_language_column scenario_columns(2) scenario_no_nulls
  show ?thesis by simp
qed

lemma mixed_columns:
  "''Has Linguist?'' \<in> set (columns mixed_answers)" "''Language'' \<in> set (columns mixed_answers)"
  by (simp_all add: mixed_answers_def)

lemma mixed_other:
  "[Str ''Spanish'', Str ''yes''] \<in> set (rows mixed_answers)"
  "field mixed_answers ''Has Linguist?'' [Str ''Spanish'', Str ''yes''] = Str ''yes''"
  by (simp_all add: mixed_answers_def field_def cell_at_def)

lemma mixed_counts:
  "fulfilled mixed_answers = Inr (Some 1)" "unfulfilled mixed_answers = Inr (Some 5)"
  "len mixed_answers = 11"
  by code_simp+

lemma mixed_stats:
  "process_language_stats mixed_answers =
     Inr \<lparr>columns = [''Language'', ''Request Count'', ''Status''],
          rows = [[Str ''Farsi'', Num 8, Str ''Not Sourceable''],
                  [Str ''Spanish'', Num 2, Str ''Sourceable''],
                  [Str ''Dari'', Num 1, Str ''Not Sourceable'']]\<rparr>"
  by code_simp

lemma mixed_gaps: "gap_analysis mixed_answers = Inr (Some [(Str ''Farsi'', 5, ''HIGH'')])"
  by code_simp

theorem has_linguist_exact_witness:
  "''Has Linguist?'' \<in> set (columns mixed_answers) \<and> ''Language'' \<in> set (columns mixed_answers) \<and>
   [Str ''Spanish'', Str ''yes''] \<in> set (rows mixed_answers) \<and>
   field mixed_answers ''Has Linguist?'' [Str ''Spanish'', Str ''yes''] = Str ''yes'' \<and>
   fulfilled mixed_answers = Inr (Some 1) \<and> unfulfilled mixed_answers = Inr (Some 5) \<and>
   (1::int) + 5 < len mixed_answers \<and>
   process_language_stats mixed_answers =
     Inr \<lparr>columns = [''Language'', ''Request Count'', ''Status''],
          rows = [[Str ''Farsi'', Num 8, Str ''Not Sourceable''],
                  [Str ''Spanish'', Num 2, Str ''Sourceable''],
                  [Str ''Dari'', Num 1, Str ''Not Sourceable'']]\<rparr> \<and>
   field mixed_answers ''Language'' ` set (rows mixed_answers) - {NaN} =
     {Str ''Farsi'', Str ''Spanish'', Str ''Dari''} \<and>
   gap_analysis mixed_answers = Inr (Some [(Str ''Farsi'', 5, ''HIGH'')]) \<and>
   (\<lambda>l. (l, unfulfilled_requests mixed_answers l)) `
      {l. l \<noteq> NaN \<and> 5 \<le> unfulfilled_requests mixed_answers l} = {(Str ''Farsi'', 5)}"
proof -
  from has_linguist_exact [OF mixed_columns(1)] obtain f u where
    f: "fulfilled mixed_answers = Inr (Some f)" and u: "unfulfilled mixed_answers = Inr (Some u)" and
    "f = int (length (filter (\<lambda>r. field mixed_answers ''Has Linguist?'' r = Str ''YES'') (rows mixed_answers)))" and
    "u = int (length (filter (\<lambda>r. field mixed_answers ''Has Linguist?'' r = Str ''NO'') (rows mixed_answers)))" and
    "f + u \<le> len mixed_answers" and
    less: "(\<exists>r \<in> set (rows mixed_answers).
              field mixed_answers ''Has Linguist?'' r \<noteq> Str ''YES'' \<and>
              field mixed_answers ''Has Linguist?'' r \<noteq> Str ''NO'') \<longrightarrow> f + u < len mixed_answers" and
    rest: "''Language'' \<in> set (columns mixed_answers) \<longrightarrow>
              (\<exists>out. process_language_stats mixed_answers = Inr out \<and>
                 (\<lambda>row. cell_at row 0) ` set (rows out) =
                   field mixed_answers ''Language'' ` set (rows mixed_answers) - {NaN} \<and>
                 distinct (map (\<lambda>row. cell_at row 0) (rows out)) \<and>
                 (\<forall>row \<in> set (rows out). cell_at row 2 = Str (status_of mixed_answers (cell_at row 0)))) \<and>
              (\<exists>g. gap_analysis mixed_answers = Inr g \<and>
                 (\<lambda>(l, n, p). (l, n)) ` set (gap_entries g) =
                   (\<lambda>l. (l, unfulfilled_requests mixed_answers l)) `
                     {l. l \<noteq> NaN \<and> 5 \<le> unfulfilled_requests mixed_answers l})"
    by (elim exE conjE) (rule that; assumption)
  from f u have fu: "f = 1" "u = 5" by (simp_all add: mixed_counts)
  have other: "\<exists>r \<in> set (rows mixed_answers).
              field mixed_answers ''Has Linguist?'' r \<noteq> Str ''YES'' \<and>
              field mixed_answers ''Has Linguist?'' r \<noteq> Str ''NO''"
    using mixed_other by (intro bexI [of _ "[Str ''Spanish'', Str ''yes'']"]) simp_all
  from less [THEN mp, OF other] have lt: "(1::int) + 5 < len mixed_answers"
    by (simp only: fu)
  note both = rest [THEN mp, OF mixed_columns(2)]
  from both [THEN conjunct1] obtain out where
    out: "process_language_stats mixed_answers = Inr out" and
    langs: "(\<lambda>row. cell_at row 0) ` set (rows out) =
              field mixed_answers ''Language'' ` set (rows mixed_answers) - {NaN}"
    by (elim exE conjE) (rule that; assumption)
  from both [THEN conjunct2] obtain g where
    g: "gap_analysis mixed_answers = Inr g" and
    pairs: "(\<lambda>(l, n, p). (l, n)) ` set (gap_entries g) =
              (\<lambda>l. (l, unfulfilled_requests mixed_answers l)) `
                {l. l \<noteq> NaN \<and> 5 \<le> unfulfilled_requests mixed_answers l}"
    by (elim exE conjE) (rule that; assumption)
  from out have o: "out = \<lparr>columns = [''Language'', ''Request Count'', ''Status''],
          rows = [[Str ''Farsi'', Num 8, Str ''Not Sourceable''],
                  [Str ''Spanish'', Num 2, Str ''Sourceable''],
                  [Str ''Dari'', Num 1, Str ''Not Sourceable'']]\<rparr>"
    by (simp add: mixed_stats)
  have first: "(\<lambda>row. cell_at row 0) ` set (rows out) = {Str ''Farsi'', Str ''Spanish'', Str ''Dari''}"
    unfolding o by (simp add: cell_at_def)
  have l: "field mixed_answers ''Language'' ` set (rows mixed_answers) - {NaN} =
     {Str ''Farsi'', Str ''Spanish'', Str ''Dari''}"
    by (simp only: langs [symmetric] first)
  from g have gv: "g = Some [(Str ''Farsi'', 5, ''HIGH'')]" by (simp add: mixed_gaps)
  have shown: "(\<lambda>(l, n, p). (l, n)) ` set (gap_entries g) = {(Str ''Farsi'', 5)}"
    unfolding gv by (simp add: gap_entries_def)
  have p: "(\<lambda>l. (l, unfulfilled_requests mixed_answers l)) `
      {l. l \<noteq> NaN \<and> 5 \<le> unfulfilled_requests mixed_answers l} = {(Str ''Farsi'', 5)}"
    by (simp only: pairs [symmetric] shown)
  from mixed_columns mixed_other mixed_counts(1,2) lt mixed_stats l mixed_gaps p show ?thesis
    by (intro conjI)
qed

section \<open>Properties of the trends tab\<close>

lemma cell_at_set_cell: "cell_at (set_cell r i v) j = (if j = i then v else cell_at r j)"
  by (auto simp: cell_at_def set_cell_def nth_append)

lemma col_index_eq:
  assumes "col_index c cs = Some i" and "col_index c' cs = Some j"
  shows "(j = i) = (c' = c)"
proof
  assume "j = i"
  moreover from assms(1) have "cs ! i = c" by (rule col_index_Some [THEN conjunct2])
  moreover from assms(2) have "cs ! j = c'" by (rule col_index_Some [THEN conjunct2])
  ultimately show "c' = c" by simp
next
  assume "c' = c"
  with assms show "j = i" by simp
qed

lemma field_cong_columns: "columns df' = columns df \<Longrightarrow> field df' = field df"
  by (simp add: field_def fun_eq_iff)

lemma length_to_datetime: "length (to_datetime parse col) = length col"
  by (simp add: to_datetime_def)

lemma setitem_present:
  assumes "col_index c (columns df) = Some i" and "length vals = length (rows df)"
  shows "columns (setitem df c vals) = columns df"
    and "length (rows (setitem df c vals)) = length (rows df)"
    and "k < length (rows df) \<Longrightarrow>
         field df c' (rows (setitem df c vals) ! k) =
           (if c' = c then vals ! k else field df c' (rows df ! k))"
proof -
  show "columns (setitem df c vals) = columns df"
    using assms(1) by (simp add: setitem_def)
  show "length (rows (setitem df c vals)) = length (rows df)"
    using assms by (simp add: setitem_def)
  assume k: "k < length (rows df)"
  have row: "rows (setitem df c vals) ! k = set_cell (rows df ! k) i (vals ! k)"
    using assms k by (simp add: setitem_def)
  show "field df c' (rows (setitem df c vals) ! k) =
           (if c' = c then vals ! k else field df c' (rows df ! k))"
  proof (cases "col_index c' (columns df)")
    case None
    then have "c' \<noteq> c" using assms(1) by auto
    with None show ?thesis by (simp add: field_def)
  next
    case (Some j)
    from col_index_eq [OF assms(1) Some] Some assms(1) show ?thesis
      by (simp add: field_def row cell_at_set_cell)
  qed
qed

lemma getitem_field: "c \<in> set (columns df) \<Longrightarrow> getitem df c = Inr (map (field df c) (rows df))"
  by (rule getitem_present)

lemma convert_column_duplicate:
  "1 < count_list (columns df) c \<Longrightarrow> convert_column parse df c = Inl ValueError"
  using count_list_0_iff [of "columns df" c] by (auto simp: convert_column_def)

lemma convert_column_result:
  assumes "convert_column parse df c = Inr df1"
  shows "columns df1 = columns df \<and> length (rows df1) = length (rows df) \<and>
         (\<forall>k c'. k < length (rows df) \<longrightarrow>
            field df c' (rows df1 ! k) =
              (if c' = c \<and> c \<in> set (columns df)
               then to_datetime parse (map (field df c) (rows df)) ! k
               else field df c' (rows df ! k)))"
proof (cases "c \<in> set (columns df)")
  case False
  with assms have "df1 = df" by (simp add: convert_column_def)
  with False show ?thesis by simp
next
  case True
  then obtain i where i: "col_index c (columns df) = Some i"
    using col_index_present by blast
  define vals where "vals = to_datetime parse (map (field df c) (rows df))"
  have len: "length vals = length (rows df)" by (simp add: vals_def length_to_datetime)
  from assms True have df1: "df1 = setitem df c vals"
    by (simp add: convert_column_def getitem_field vals_def split: if_splits)
  show ?thesis
    unfolding df1 using setitem_present [OF i len] True
    by (simp add: vals_def)
qed

lemma convert_column_returns:
  "count_list (columns df) c \<le> 1 \<Longrightarrow> \<exists>df1. convert_column parse df c = Inr df1"
  by (auto simp: convert_column_def getitem_field)

lemma column_unchanged:
  assumes "length rs' = length rs"
    and "\<And>k. k < length rs \<Longrightarrow> f (rs' ! k) = f (rs ! k)"
  shows "map f rs' = map f rs"
  using assms by (intro nth_equalityI) simp_all

lemma convert_dates_result:
  "convert_dates parse df cs = Inr df' \<Longrightarrow> distinct cs \<Longrightarrow>
   columns df' = columns df \<and> length (rows df') = length (rows df) \<and>
   (\<forall>k c'. k < length (rows df) \<longrightarrow>
      field df c' (rows df' ! k) =
        (if c' \<in> set cs \<and> c' \<in> set (columns df)
         then to_datetime parse (map (field df c') (rows df)) ! k
         else field df c' (rows df ! k)))"
proof (induction cs arbitrary: df)
  case Nil
  then show ?case by simp
next
  case (Cons c cs)
  from Cons.prems(1) obtain df1 where
    step: "convert_column parse df c = Inr df1" and rest: "convert_dates parse df1 cs = Inr df'"
    by (auto split: sum.splits)
  from Cons.prems(2) have dist: "distinct cs" and notin: "c \<notin> set cs" by simp_all
  from convert_column_result [OF step] have
    cols1: "columns df1 = columns df" and len1: "length (rows df1) = length (rows df)" and
    cells1: "\<And>k c'. k < length (rows df) \<Longrightarrow>
            field df c' (rows df1 ! k) =
              (if c' = c \<and> c \<in> set (columns df)
               then to_datetime parse (map (field df c) (rows df)) ! k
               else field df c' (rows df ! k))"
    by blast+
  have fld: "field df1 = field df" using cols1 by (rule field_cong_columns)
  from Cons.IH [OF rest dist] have
    cols2: "columns df' = columns df" and len2: "length (rows df') = length (rows df)" and
    cells2: "\<And>k c'. k < length (rows df) \<Longrightarrow>
            field df c' (rows df' ! k) =
              (if c' \<in> set cs \<and> c' \<in> set (columns df)
               then to_datetime parse (map (field df c') (rows df1)) ! k
               else field df c' (rows df1 ! k))"
    unfolding fld cols1 len1 by blast+
  have same: "map (field df c') (rows df1) = map (field df c') (rows df)" if "c' \<noteq> c" for c'
    using len1 cells1 that by (intro column_unchanged) simp_all
  have "field df c' (rows df' ! k) =
        (if c' \<in> set (c # cs) \<and> c' \<in> set (columns df)
         then to_datetime parse (map (field df c') (rows df)) ! k
         else field df c' (rows df ! k))" if k: "k < length (rows df)" for k c'
  proof (cases "c' = c")
    case True
    with notin cells2 [OF k, of c'] cells1 [OF k, of c'] show ?thesis by simp
  next
    case False
    with cells2 [OF k, of c'] cells1 [OF k, of c'] same [OF False] show ?thesis by simp
  qed
  with cols2 len2 show ?case by blast
qed

lemma convert_dates_returns:
  "\<forall>c \<in> set cs. count_list (columns df) c \<le> 1 \<Longrightarrow> \<exists>df'. convert_dates parse df cs = Inr df'"
proof (induction cs arbitrary: df)
  case Nil
  then show ?case by simp
next
  case (Cons c cs)
  then obtain df1 where step: "convert_column parse df c = Inr df1"
    using convert_column_returns [of df c parse] by auto
  from convert_column_result [OF step] have "columns df1 = columns df" by simp
  with Cons.prems have "\<forall>c \<in> set cs. count_list (columns df1) c \<le> 1" by simp
  from Cons.IH [OF this] step show ?case by simp
qed

lemma col_index_append_new: "c \<notin> set cs \<Longrightarrow> col_index c (cs @ [c]) = Some (length cs)"
  by (induction cs) auto

lemma cells_after_set:
  "length vals = length rs \<Longrightarrow>
   map (\<lambda>r. cell_at r i) (map (\<lambda>(r, v). set_cell r i v) (zip rs vals)) = vals"
proof (induction rs arbitrary: vals)
  case Nil
  then show ?case by simp
next
  case (Cons r rs)
  then obtain v vs where "vals = v # vs" by (cases vals) auto
  with Cons show ?case by (simp add: cell_at_set_cell)
qed

lemma getitem_setitem:
  assumes "length vals = length (rows df)"
  shows "getitem (setitem df c vals) c = Inr vals"
proof (cases "col_index c (columns df)")
  case None
  then have "c \<notin> set (columns df)" by (simp add: col_index_None)
  then have "col_index c (columns df @ [c]) = Some (length (columns df))"
    by (rule col_index_append_new)
  with None show ?thesis
    using cells_after_set [OF assms, of "length (columns df)"]
    by (simp add: getitem_def setitem_def)
next
  case (Some i)
  then show ?thesis
    using cells_after_set [OF assms, of i]
    by (simp add: getitem_def setitem_def)
qed

lemma count_after_setitem:
  assumes "count_list (columns df) c \<le> 1"
  shows "count_list (columns (setitem df c vals)) c \<le> 1"
proof (cases "col_index c (columns df)")
  case None
  then have "c \<notin> set (columns df)" by (simp add: col_index_None)
  then have "count_list (columns df) c = 0" by (simp add: count_list_0_iff)
  with None show ?thesis by (simp add: setitem_def)
next
  case (Some i)
  with assms show ?thesis by (simp add: setitem_def)
qed

lemma series_assign:
  assumes "count_list (columns df) c \<le> 1" and "length vals = length (rows df)"
  shows "\<exists>df'. assign df c vals = Inr df' \<and> series df' c = Inr vals"
proof -
  have "assign df c vals = Inr (setitem df c vals)"
    using assms(1) by (simp add: assign_def)
  moreover have "series (setitem df c vals) c = Inr vals"
    using count_after_setitem [OF assms(1), of vals] getitem_setitem [OF assms(2), of c]
    by (simp add: series_def)
  ultimately show ?thesis by blast
qed

lemma map_of_value_counts:
  "map_of (value_counts xs) k =
     (if k \<in> set xs \<and> k \<noteq> NaN then Some (int (count_list xs k)) else None)"
proof (cases "k \<in> set xs \<and> k \<noteq> NaN")
  case True
  then have "(k, int (count_list xs k)) \<in> set (value_counts xs)"
    by (simp add: set_value_counts)
  then have "map_of (value_counts xs) k = Some (int (count_list xs k))"
    using distinct_value_counts [of xs] by simp
  with True show ?thesis by simp
next
  case False
  then have "k \<notin> fst ` set (value_counts xs)"
    by (simp only: keys_value_counts) blast
  then have "map_of (value_counts xs) k = None"
    by (simp add: map_of_eq_None_iff)
  with False show ?thesis by simp
qed

lemma reindex_value_counts:
  assumes "NaN \<notin> set idx"
  shows "reindex (value_counts xs) idx 0 = map (\<lambda>k. (k, int (count_list xs k))) idx"
proof -
  have "(case map_of (value_counts xs) k of Some n \<Rightarrow> n | None \<Rightarrow> 0) = int (count_list xs k)"
    if "k \<in> set idx" for k
  proof -
    from that assms have "k \<noteq> NaN" by auto
    then show ?thesis
      using count_list_0_iff [of xs k] by (simp add: map_of_value_counts)
  qed
  then show ?thesis by (simp add: reindex_def)
qed

lemma count_days:
  "count_list (map dt_day_name (filter (\<lambda>c. c \<noteq> NaN) xs)) (Str d) =
   count_list (map (\<lambda>c. case c of Tstamp t \<Rightarrow> Some (day_name t) | _ \<Rightarrow> None) xs) (Some d)"
proof (induction xs)
  case Nil
  then show ?case by simp
next
  case (Cons x xs)
  then show ?case by (cases x) (simp_all add: dt_day_name_def)
qed

lemma day_counts_spec:
  assumes added: "''Row Added'' \<in> set (columns df_time)"
    and once: "count_list (columns df_time) ''Row Added'' \<le> 1"
    and dow: "count_list (columns df_time) ''Day of Week'' \<le> 1"
  shows "day_counts df_time =
           Inr (map (\<lambda>d. (Str d, int (count_list (map dt_day_name
                        (map (field df_time ''Row Added'') (rows df_time))) (Str d)))) day_order)"
proof -
  define ts where "ts = map (field df_time ''Row Added'') (rows df_time)"
  have s1: "series df_time ''Row Added'' = Inr ts"
    using added once by (simp add: series_def getitem_field ts_def)
  have "length (map dt_day_name ts) = length (rows df_time)" by (simp add: ts_def)
  from series_assign [OF dow this] obtain df' where
    a: "assign df_time ''Day of Week'' (map dt_day_name ts) = Inr df'" and
    s2: "series df' ''Day of Week'' = Inr (map dt_day_name ts)"
    by blast
  have res: "day_counts df_time =
               Inr (reindex (value_counts (map dt_day_name ts)) (map Str day_order) 0)"
    by (simp add: day_counts_def s1 a s2)
  have "NaN \<notin> set (map Str day_order)" by auto
  then have "reindex (value_counts (map dt_day_name ts)) (map Str day_order) 0 =
               map (\<lambda>k. (k, int (count_list (map dt_day_name ts) k))) (map Str day_order)"
    by (rule reindex_value_counts)
  with res show ?thesis by (simp add: o_def ts_def)
qed

lemma dropna_spec:
  assumes "c \<in> set (columns df)" and "count_list (columns df) c \<le> 1"
  shows "\<exists>df_time. dropna df c = Inr df_time \<and> columns df_time = columns df \<and>
           rows df_time = filter (\<lambda>r. field df c r \<noteq> NaN) (rows df)"
proof -
  have "map (\<lambda>v. v \<noteq> NaN) (map (field df c) (rows df)) = map (\<lambda>r. field df c r \<noteq> NaN) (rows df)"
    by simp
  then have "dropna df c = Inr (select_rows df (map (\<lambda>r. field df c r \<noteq> NaN) (rows df)))"
    using assms by (simp add: dropna_def series_def getitem_field o_def)
  then show ?thesis
    by (simp add: rows_select_rows columns_select_rows)
qed

lemma day_of_week_volume_spec:
  assumes added: "''Row Added'' \<in> set (columns df)"
    and once: "\<forall>c \<in> set (''Day of Week'' # date_columns). count_list (columns df) c \<le> 1"
  shows "day_of_week_volume parse df =
           Inr (Some (map (\<lambda>d. (Str d, int (count_list (added_on parse df) (Some d)))) day_order))"
proof -
  from once have dates: "\<forall>c \<in> set date_columns. count_list (columns df) c \<le> 1"
    and dow: "count_list (columns df) ''Day of Week'' \<le> 1"
    and ra: "count_list (columns df) ''Row Added'' \<le> 1"
    by (simp_all add: date_columns_def)
  from convert_dates_returns [OF dates] obtain df' where
    conv: "convert_dates parse df date_columns = Inr df'" by blast
  have "distinct date_columns" by (simp add: date_columns_def)
  from convert_dates_result [OF conv this] have
    cols: "columns df' = columns df" and len: "length (rows df') = length (rows df)" and
    cells: "\<And>k c'. k < length (rows df) \<Longrightarrow>
            field df c' (rows df' ! k) =
              (if c' \<in> set date_columns \<and> c' \<in> set (columns df)
               then to_datetime parse (map (field df c') (rows df)) ! k
               else field df c' (rows df ! k))"
    by blast+
  have fld: "field df' = field df" using cols by (rule field_cong_columns)
  define conv_col where "conv_col = to_datetime parse (map (field df ''Row Added'') (rows df))"
  have col: "map (field df ''Row Added'') (rows df') = conv_col"
  proof (rule nth_equalityI)
    show "length (map (field df ''Row Added'') (rows df')) = length conv_col"
      by (simp add: conv_col_def length_to_datetime len)
    fix k assume "k < length (map (field df ''Row Added'') (rows df'))"
    then have k: "k < length (rows df)" by (simp add: len)
    with cells [OF k, of "''Row Added''"] added len
    show "map (field df ''Row Added'') (rows df') ! k = conv_col ! k"
      by (simp add: conv_col_def date_columns_def)
  qed
  from dropna_spec [of "''Row Added''" df'] added ra cols obtain df_time where
    drop: "dropna df' ''Row Added'' = Inr df_time" and
    tcols: "columns df_time = columns df" and
    trows: "rows df_time = filter (\<lambda>r. field df ''Row Added'' r \<noteq> NaN) (rows df')"
    by (auto simp: fld)
  have tfld: "field df_time = field df" using tcols by (rule field_cong_columns)
  have ts: "map (field df_time ''Row Added'') (rows df_time) = filter (\<lambda>c. c \<noteq> NaN) conv_col"
    unfolding tfld trows col [symmetric] by (simp add: filter_map o_def)
  have "day_counts df_time =
          Inr (map (\<lambda>d. (Str d, int (count_list (map dt_day_name
                 (map (field df_time ''Row Added'') (rows df_time))) (Str d)))) day_order)"
    using added ra dow by (intro day_counts_spec) (simp_all add: tcols)
  then have "day_counts df_time =
          Inr (map (\<lambda>d. (Str d, int (count_list (added_on parse df) (Some d)))) day_order)"
    by (simp only: ts count_days added_on_def conv_col_def)
  with conv drop added cols show ?thesis
    by (simp add: day_of_week_volume_def)
qed

lemma day_of_week_volume_absent:
  assumes "''Row Added'' \<notin> set (columns df)"
    and "\<forall>c \<in> set date_columns. count_list (columns df) c \<le> 1"
  shows "day_of_week_volume parse df = Inr None"
proof -
  from convert_dates_returns [OF assms(2)] obtain df' where
    conv: "convert_dates parse df date_columns = Inr df'" by blast
  have "distinct date_columns" by (simp add: date_columns_def)
  from convert_dates_result [OF conv this] have "columns df' = columns df" by simp
  with conv assms(1) show ?thesis by (simp add: day_of_week_volume_def)
qed

text \<open>
  Claim C6, as amended. On a master table that has the column \<^verbatim>\<open>Row Added\<close>, and in
  which none of the labels \<^verbatim>\<open>Date of request\<close>, \<^verbatim>\<open>Hearing Date\<close>, \<^verbatim>\<open>Row Added\<close> and
  \<^verbatim>\<open>Day of Week\<close> occurs twice, the day-of-week volume has exactly 7 entries, labelled
  Monday to Sunday in this order; the count of a day is the number of rows added on that
  day, so 0 for a day on which no row was added.
\<close>

theorem day_of_week_volume_seven:
  assumes "''Row Added'' \<in> set (columns df)"
    and "\<forall>c \<in> set (''Day of Week'' # date_columns). count_list (columns df) c \<le> 1"
  shows "\<exists>out. day_of_week_volume parse df = Inr (Some out) \<and>
           length out = 7 \<and>
           map fst out = map Str [''Monday'', ''Tuesday'', ''Wednesday'', ''Thursday'',
                                  ''Friday'', ''Saturday'', ''Sunday''] \<and>
           map snd out = map (\<lambda>d. int (count_list (added_on parse df) (Some d))) day_order"
proof -
  define out where
    "out = map (\<lambda>d. (Str d, int (count_list (added_on parse df) (Some d)))) day_order"
  have res: "day_of_week_volume parse df = Inr (Some out)"
    unfolding out_def by (rule day_of_week_volume_spec [OF assms])
  have "length out = 7" by (simp add: out_def day_order_def)
  moreover have "map fst out = map Str [''Monday'', ''Tuesday'', ''Wednesday'', ''Thursday'',
                                  ''Friday'', ''Saturday'', ''Sunday'']"
    by (simp add: out_def day_order_def)
  moreover have "map snd out = map (\<lambda>d. int (count_list (added_on parse df) (Some d))) day_order"
    by (simp add: out_def o_def)
  ultimately show ?thesis using res by blast
qed

lemma added_log_columns: "''Row Added'' \<in> set (columns added_log)"
  by (simp add: added_log_def)

lemma added_log_labels:
  "\<forall>c \<in> set (''Day of Week'' # date_columns). count_list (columns added_log) c \<le> 1"
  by (simp add: added_log_def date_columns_def)

lemma added_log_volume:
  "day_of_week_volume reads_no_text added_log =
     Inr (Some [(Str ''Monday'', 0), (Str ''Tuesday'', 0), (Str ''Wednesday'', 0),
                (Str ''Thursday'', 2), (Str ''Friday'', 1), (Str ''Saturday'', 0),
                (Str ''Sunday'', 0)])"
  by code_simp

theorem day_of_week_volume_seven_witness:
  "''Row Added'' \<in> set (columns added_log) \<and>
   count_list (columns added_log) ''Day of Week'' \<le> 1 \<and>
   count_list (columns added_log) ''Date of request'' \<le> 1 \<and>
   count_list (columns added_log) ''Hearing Date'' \<le> 1 \<and>
   count_list (columns added_log) ''Row Added'' \<le> 1 \<and>
   day_of_week_volume reads_no_text added_log =
     Inr (Some [(Str ''Monday'', 0), (Str ''Tuesday'', 0), (Str ''Wednesday'', 0),
                (Str ''Thursday'', 2), (Str ''Friday'', 1), (Str ''Saturday'', 0),
                (Str ''Sunday'', 0)]) \<and>
   map (\<lambda>d. int (count_list (added_on reads_no_text added_log) (Some d))) day_order =
     [0, 0, 0, 2, 1, 0, 0]"
proof -
  from day_of_week_volume_seven [OF added_log_columns added_log_labels, of reads_no_text]
  obtain out where
    out: "day_of_week_volume reads_no_text added_log = Inr (Some out)" and
    counts: "map snd out =
       map (\<lambda>d. int (count_list (added_on reads_no_text added_log) (Some d))) day_order"
    by blast
  from out have "out = [(Str ''Monday'', 0), (Str ''Tuesday'', 0), (Str ''Wednesday'', 0),
                (Str ''Thursday'', 2), (Str ''Friday'', 1), (Str ''Saturday'', 0),
                (Str ''Sunday'', 0)]"
    by (simp add: added_log_volume)
  with counts have "map (\<lambda>d. int (count_list (added_on reads_no_text added_log) (Some d))) day_order =
      [0, 0, 0, 2, 1, 0, 0]"
    by simp
  moreover have "count_list (columns added_log) ''Day of Week'' \<le> 1"
    "count_list (columns added_log) ''Date of request'' \<le> 1"
    "count_list (columns added_log) ''Hearing Date'' \<le> 1"
    "count_list (columns added_log) ''Row Added'' \<le> 1"
    by (simp_all add: added_log_def)
  ultimately show ?thesis using added_log_columns added_log_volume by simp
qed

theorem day_of_week_volume_nothing:
  "''Row Added'' \<notin> set (columns priority_log) \<and>
   day_of_week_volume reads_no_text priority_log = Inr None"
  by code_simp

lemma doubled_labels_raise:
  "load_data (Some doubled_workbook) None None =
     Inr \<lparr>master = Some \<lparr>columns = [''Row Added'', ''Row Added''],
                           rows = [[Tstamp 0, Tstamp 86400000000000]]\<rparr>,
          analysis = None, summary = None, linguists = None\<rparr> \<and>
   day_of_week_volume reads_no_text
     \<lparr>columns = [''Row Added'', ''Row Added''], rows = [[Tstamp 0, Tstamp 86400000000000]]\<rparr> =
     Inl ValueError"
  by code_simp

section \<open>Properties of the loader, of missing columns and of the search\<close>

text \<open>
  Claim C7, as amended. When a read of one of the two named sheets fails, the loader
  reads the default sheet of the analysis file. If that read succeeds, the result holds
  the default sheet under \<^verbatim>\<open>analysis\<close> and nothing under \<^verbatim>\<open>summary\<close>, and no error is
  surfaced; if that read fails too, its error is surfaced to the caller. (The other two
  files are absent or readable.)
\<close>

theorem load_data_named_sheet_fallback:
  assumes "readable master_file" and "readable linguist_file"
    and "isl (read_excel f (Some ''All Historical Data'')) \<or> isl (read_excel f (Some ''Summary''))"
  shows "(\<forall>t. read_excel f None = Inr t \<longrightarrow>
            (\<exists>d. load_data master_file (Some f) linguist_file = Inr d \<and>
                 analysis d = Some t \<and> summary d = None)) \<and>
         (\<forall>e. read_excel f None = Inl e \<longrightarrow>
            load_data master_file (Some f) linguist_file = Inl e)"
  using assms
  by (auto simp: load_data_def readable_def Let_def split: option.splits sum.splits)

theorem load_data_named_sheet_fallback_witness:
  "readable None \<and> isl (read_excel cover_workbook (Some ''Summary'')) \<and>
   read_excel cover_workbook None = Inr no_requests \<and>
   (\<exists>d. load_data None (Some cover_workbook) None = Inr d \<and>
        analysis d = Some no_requests \<and> summary d = None) \<and>
   isl (read_excel Unreadable (Some ''All Historical Data'')) \<and>
   read_excel Unreadable None = Inl BadFile \<and>
   load_data None (Some Unreadable) None = Inl BadFile"
proof -
  have r: "readable None" by (simp add: readable_def)
  have s: "isl (read_excel cover_workbook (Some ''Summary''))"
    by (simp add: cover_workbook_def)
  have t: "read_excel cover_workbook None = Inr no_requests"
    by (simp add: cover_workbook_def)
  have u: "isl (read_excel Unreadable (Some ''All Historical Data''))" by simp
  have v: "read_excel Unreadable None = Inl BadFile" by simp
  from load_data_named_sheet_fallback [OF r r disjI2 [OF s]] t
  have 1: "\<exists>d. load_data None (Some cover_workbook) None = Inr d \<and>
        analysis d = Some no_requests \<and> summary d = None"
    by blast
  from load_data_named_sheet_fallback [OF r r disjI1 [OF u]] v
  have 2: "load_data None (Some Unreadable) None = Inl BadFile"
    by blast
  from r s t u v 1 2 show ?thesis by blast
qed

theorem load_data_error_surfaced:
  "isl (read_excel Unreadable (Some ''All Historical Data'')) \<and>
   load_data None (Some Unreadable) None = Inl BadFile"
  by (simp add: load_data_def)

lemma missing_has_linguist:
  assumes "''Has Linguist?'' \<notin> set (columns df)"
  shows "gap_analysis df = Inr None" and "fulfillment_rate df = Inr None"
    and "unfulfilled df = Inr None"
  using assms by (simp_all add: gap_analysis_def fulfillment_rate_def fulfilled_def unfulfilled_def)

text \<open>
  Claim C8 fails on the code. On an analysis table that has the column
  \<^verbatim>\<open>Has Linguist?\<close> with a row answered \<^verbatim>\<open>NO\<close> but no column \<^verbatim>\<open>Language\<close>, the gap
  analysis raises \<^verbatim>\<open>KeyError\<close> instead of giving an empty result, and so does the
  language tab, which runs before it.
\<close>

theorem gap_analysis_missing_language:
  "''Has Linguist?'' \<in> set (columns no_language) \<and> ''Language'' \<notin> set (columns no_language) \<and>
   gap_analysis no_language = Inl (KeyError ''Language'') \<and>
   gap_languages no_language = Inl (KeyError ''Language'') \<and>
   process_language_stats no_language = Inr empty_frame"
  by code_simp

text \<open>
  Claim C1 fails on the code through the same missing guard as claim C8. The table
  \<open>unlabelled_gaps\<close> has the column \<^verbatim>\<open>Has Linguist?\<close>, so it is a table the claim speaks
  about, and no language in it has 5 or more rows answered \<^verbatim>\<open>NO\<close>, so the claim's
  answer is the empty result; the gap analysis raises \<^verbatim>\<open>KeyError\<close> instead.
\<close>

theorem gap_analysis_raises_without_language:
  "''Has Linguist?'' \<in> set (columns unlabelled_gaps) \<and>
   {l. l \<noteq> NaN \<and> 5 \<le> unfulfilled_requests unlabelled_gaps l} = {} \<and>
   gap_analysis unlabelled_gaps = Inl (KeyError ''Language'')"
proof -
  have "unfulfilled_requests unlabelled_gaps l = 0" if "l \<noteq> NaN" for l
    using that by (auto simp: unfulfilled_requests_def unlabelled_gaps_def field_def)
  then have "{l. l \<noteq> NaN \<and> 5 \<le> unfulfilled_requests unlabelled_gaps l} = {}" by auto
  moreover have "''Has Linguist?'' \<in> set (columns unlabelled_gaps)"
    by (simp add: unlabelled_gaps_def)
  moreover have "gap_analysis unlabelled_gaps = Inl (KeyError ''Language'')"
    by code_simp
  ultimately show ?thesis by (intro conjI)
qed

lemma re_compile_plain:
  "set q \<inter> set regex_special = {} \<Longrightarrow> re_compile q = Some (map Lit q)"
proof (induction q)
  case Nil
  then show ?case by simp
next
  case (Cons c q)
  then have "c \<notin> set regex_special" and "set q \<inter> set regex_special = {}" by auto
  moreover from \<open>c \<notin> set regex_special\<close> have "c \<noteq> CHR ''.''"
    by (auto simp: regex_special_def)
  ultimately show ?case using Cons.IH by simp
qed

lemma match_here_plain: "match_here (map Lit q) s = prefix (map lower q) (map lower s)"
proof (induction q arbitrary: s)
  case Nil
  then show ?case by simp
next
  case (Cons c q)
  then show ?case by (cases s) (simp_all add: atom_matches_def)
qed

lemma re_search_plain: "re_search (map Lit q) s = contains_ci q s"
proof (induction s)
  case Nil
  show ?case by (cases q) (simp_all add: contains_ci_def)
next
  case (Cons c s)
  then show ?case
    by (simp add: contains_ci_def match_here_plain sublist_Cons_right del: match_here.simps)
qed

lemma select_rows_filter: "select_rows df (map h (rows df)) = df\<lparr>rows := filter h (rows df)\<rparr>"
  by (simp add: select_rows_def filter_zip_map)

lemma search_records_plain:
  assumes "set q \<inter> set regex_special = {}"
  shows "search_records fmt q df = Some (search_spec fmt q df)"
  by (simp add: search_records_def re_compile_plain [OF assms] select_rows_filter
      search_spec_def re_search_plain)

text \<open>
  Claim C9, as amended. For a non-empty query without a special character of regular
  expressions, the search over a loaded analysis table returns exactly the rows in which
  the text of at least one column (a value that is not a text is converted to text
  first) contains the query as a substring, letter case aside.
\<close>

theorem search_plain_query:
  assumes "search_term \<noteq> []" and "set search_term \<inter> set regex_special = {}"
    and "analysis d = Some df"
  shows "reports_tab fmt search_term d = Inr (d, Matches (search_spec fmt search_term df))"
  using assms(1,3) by (simp add: reports_tab_def search_records_plain [OF assms(2)])

lemma spanish_plain: "''spanish'' \<noteq> []" "set ''spanish'' \<inter> set regex_special = {}"
  by (simp_all add: regex_special_def)

lemma loaded_analysis: "analysis (loaded m a) = Some a"
  by (simp add: loaded_def)

lemma spanish_rows:
  "search_spec prints_nothing ''spanish'' requests =
     requests\<lparr>rows := [[Str ''Spanish'', Num 4021, Str ''Court A''],
                       [Str ''SPANISH'', Num 17, NaN]]\<rparr>"
  by code_simp

theorem search_plain_query_witness:
  "''spanish'' \<noteq> [] \<and> set ''spanish'' \<inter> set regex_special = {} \<and>
   analysis (loaded added_log requests) = Some requests \<and>
   reports_tab prints_nothing ''spanish'' (loaded added_log requests) =
     Inr (loaded added_log requests,
          Matches (requests\<lparr>rows := [[Str ''Spanish'', Num 4021, Str ''Court A''],
                       [Str ''SPANISH'', Num 17, NaN]]\<rparr>))"
  using search_plain_query [OF spanish_plain loaded_analysis, of prints_nothing added_log]
    spanish_plain loaded_analysis [of added_log requests]
  by (simp add: spanish_rows)

lemma integer_as_text:
  "search_spec prints_nothing ''40'' requests =
     requests\<lparr>rows := [[Str ''Spanish'', Num 4021, Str ''Court A'']]\<rparr>"
  by code_simp

theorem search_dot_matches_all:
  "search_records prints_nothing ''.'' requests = Some requests \<and>
   search_spec prints_nothing ''.'' requests = requests\<lparr>rows := []\<rparr> \<and>
   requests \<noteq> requests\<lparr>rows := []\<rparr>"
  by code_simp

section \<open>Properties of a run\<close>

lemma and_then_Inr: "and_then r f = Inr y \<Longrightarrow> \<exists>x. r = Inr x \<and> f x = Inr y"
  by (cases r) (simp_all add: and_then_def)

lemma overview_tab_data: "overview_tab present d = Inr d' \<Longrightarrow> d' = d"
  by (auto simp: overview_tab_def and_then_def split: option.splits sum.splits)

lemma language_tab_data: "language_tab present status_filter d = Inr d' \<Longrightarrow> d' = d"
  by (auto simp: language_tab_def and_then_def split: option.splits sum.splits)

lemma gap_tab_data: "gap_tab present d = Inr d' \<Longrightarrow> d' = d"
  by (auto simp: gap_tab_def and_then_def split: option.splits sum.splits)

lemma reports_tab_data: "reports_tab fmt search_term d = Inr (d', out) \<Longrightarrow> d' = d"
  by (auto simp: reports_tab_def split: option.splits sum.splits if_splits)

lemma detailed_reports_tab_data: "detailed_reports_tab lib u d = Inr d' \<Longrightarrow> d' = d"
  by (auto simp: detailed_reports_tab_def and_then_def split: sum.splits prod.splits
      dest: reports_tab_data)

lemma trends_tab_data:
  assumes "trends_tab lib d = Inr d'"
  shows "analysis d' = analysis d \<and> summary d' = summary d \<and> linguists d' = linguists d \<and>
         (master d = None \<longrightarrow> master d' = None) \<and>
         (\<forall>m. master d = Some m \<longrightarrow>
            (\<exists>m'. master d' = Some m' \<and> columns m' = columns m \<and>
                  length (rows m') = length (rows m) \<and>
                  (\<forall>k c. k < length (rows m) \<longrightarrow>
                     field m' c (rows m' ! k) =
                       (if c \<in> set date_columns \<and> c \<in> set (columns m)
                        then to_datetime (lib_parse lib) (map (field m c) (rows m)) ! k
                        else field m c (rows m ! k)))))"
proof (cases "master d")
  case None
  with assms show ?thesis by (simp add: trends_tab_def)
next
  case (Some m)
  from assms Some obtain m' where
    conv: "convert_dates (lib_parse lib) m date_columns = Inr m'" and
    d': "d' = d\<lparr>master := Some m'\<rparr>"
    by (auto simp: trends_tab_def dest!: and_then_Inr)
  have "distinct date_columns" by (simp add: date_columns_def)
  from convert_dates_result [OF conv this] have
    cols: "columns m' = columns m" and len: "length (rows m') = length (rows m)" and
    cells: "\<And>k c. k < length (rows m) \<Longrightarrow>
            field m c (rows m' ! k) =
              (if c \<in> set date_columns \<and> c \<in> set (columns m)
               then to_datetime (lib_parse lib) (map (field m c) (rows m)) ! k
               else field m c (rows m ! k))"
    by blast+
  have fld: "field m' = field m" using cols by (rule field_cong_columns)
  have "\<exists>m''. master d' = Some m'' \<and> columns m'' = columns m \<and>
                  length (rows m'') = length (rows m) \<and>
                  (\<forall>k c. k < length (rows m) \<longrightarrow>
                     field m'' c (rows m'' ! k) =
                       (if c \<in> set date_columns \<and> c \<in> set (columns m)
                        then to_datetime (lib_parse lib) (map (field m c) (rows m)) ! k
                        else field m c (rows m ! k)))"
    using cols len cells by (intro exI [of _ m']) (simp add: d' fld)
  with Some d' show ?thesis by simp
qed

text \<open>
  Claim C3, as amended. In a run of the dashboard no operation changes the analysis,
  summary or linguists table, and none adds or removes a row or a column of the master
  table or changes a cell of it outside the columns \<^verbatim>\<open>Date of request\<close>,
  \<^verbatim>\<open>Hearing Date\<close> and \<^verbatim>\<open>Row Added\<close>. The trends tab overwrites those date columns of
  the loaded master table with their conversion to timestamps.
\<close>

theorem base_tables_after_run:
  assumes "dashboard lib u d = Inr d'"
  shows "analysis d' = analysis d \<and> summary d' = summary d \<and> linguists d' = linguists d \<and>
         (master d = None \<longrightarrow> master d' = None) \<and>
         (\<forall>m. master d = Some m \<longrightarrow>
            (\<exists>m'. master d' = Some m' \<and> columns m' = columns m \<and>
                  length (rows m') = length (rows m) \<and>
                  (\<forall>k c. k < length (rows m) \<longrightarrow>
                     field m' c (rows m' ! k) =
                       (if c \<in> set date_columns \<and> c \<in> set (columns m)
                        then to_datetime (lib_parse lib) (map (field m c) (rows m)) ! k
                        else field m c (rows m ! k)))))"
proof (cases "master d \<noteq> None \<or> analysis d \<noteq> None")
  case False
  with assms have "d' = d" by (simp add: dashboard_def)
  with False show ?thesis by simp
next
  case True
  with assms obtain d1 d2 d3 d4 where
    t1: "overview_tab (lib_present lib) d = Inr d1" and
    t2: "language_tab (lib_present lib) (ui_status_filter u) d1 = Inr d2" and
    t3: "trends_tab lib d2 = Inr d3" and
    t4: "gap_tab (lib_present lib) d3 = Inr d4" and
    t5: "detailed_reports_tab lib u d4 = Inr d'"
    by (auto simp: dashboard_def dest!: and_then_Inr)
  from t1 have "d1 = d" by (rule overview_tab_data)
  moreover from t2 have "d2 = d1" by (rule language_tab_data)
  moreover from t4 have "d4 = d3" by (rule gap_tab_data)
  moreover from t5 have "d' = d4" by (rule detailed_reports_tab_data)
  ultimately have "trends_tab lib d = Inr d'" using t3 by simp
  then show ?thesis by (rule trends_tab_data)
qed

lemma example_loaded:
  "load_data (Some (Workbook [(''Sheet1'', added_log)])) (Some (Workbook [(''Sheet1'', scenario)])) None =
     Inr (loaded added_log scenario)"
  by code_simp

lemma run_returns: "\<not> isl example_run"
  unfolding example_run_def by code_simp

lemma run_master: "master (projr example_run) = Some added_log_converted"
  unfolding example_run_def by code_simp

lemma run_result:
  "dashboard example_library example_ui (loaded added_log scenario) = Inr (projr example_run)"
  using run_returns by (simp add: example_run_def)

theorem base_tables_after_run_witness:
  "dashboard example_library example_ui (loaded added_log scenario) = Inr (projr example_run) \<and>
   master (loaded added_log scenario) = Some added_log \<and>
   analysis (projr example_run) = Some scenario \<and>
   summary (projr example_run) = None \<and>
   linguists (projr example_run) = None \<and>
   (\<exists>m'. master (projr example_run) = Some m' \<and> columns m' = columns added_log \<and>
         length (rows m') = length (rows added_log))"
proof -
  have m: "master (loaded added_log scenario) = Some added_log" by (simp add: loaded_def)
  note inv = base_tables_after_run [OF run_result]
  from inv have a: "analysis (projr example_run) = analysis (loaded added_log scenario)"
    by (rule conjunct1)
  from inv have s: "summary (projr example_run) = summary (loaded added_log scenario)"
    by (rule conjunct2 [THEN conjunct1])
  from inv have l: "linguists (projr example_run) = linguists (loaded added_log scenario)"
    by (rule conjunct2 [THEN conjunct2, THEN conjunct1])
  from inv have "\<forall>m. master (loaded added_log scenario) = Some m \<longrightarrow>
            (\<exists>m'. master (projr example_run) = Some m' \<and> columns m' = columns m \<and>
                  length (rows m') = length (rows m) \<and>
                  (\<forall>k c. k < length (rows m) \<longrightarrow>
                     field m' c (rows m' ! k) =
                       (if c \<in> set date_columns \<and> c \<in> set (columns m)
                        then to_datetime (lib_parse example_library) (map (field m c) (rows m)) ! k
                        else field m c (rows m ! k))))"
    by (rule conjunct2 [THEN conjunct2, THEN conjunct2, THEN conjunct2])
  from this [THEN spec, THEN mp, OF m] obtain m' where
    "master (projr example_run) = Some m'" and "columns m' = columns added_log" and
    "length (rows m') = length (rows added_log)"
    by (elim exE conjE) (rule that; assumption)
  then have e: "\<exists>m'. master (projr example_run) = Some m' \<and> columns m' = columns added_log \<and>
         length (rows m') = length (rows added_log)"
    by (intro exI [of _ m'] conjI)
  from a s l have "analysis (projr example_run) = Some scenario"
    "summary (projr example_run) = None" "linguists (projr example_run) = None"
    by (simp_all add: loaded_def)
  with run_result m e show ?thesis by (intro conjI)
qed

theorem trends_tab_overwrites_master:
  "load_data (Some (Workbook [(''Sheet1'', added_log)])) (Some (Workbook [(''Sheet1'', scenario)])) None =
     Inr (loaded added_log scenario) \<and>
   master (loaded added_log scenario) = Some added_log \<and>
   dashboard example_library example_ui (loaded added_log scenario) = Inr (projr example_run) \<and>
   master (projr example_run) = Some added_log_converted \<and>
   field added_log ''Row Added'' (rows added_log ! 3) = Str ''pending'' \<and>
   field added_log_converted ''Row Added'' (rows added_log_converted ! 3) = NaN \<and>
   added_log_converted \<noteq> added_log"
proof -
  have "field added_log ''Row Added'' (rows added_log ! 3) = Str ''pending''"
    by (simp add: added_log_def field_def cell_at_def)
  moreover have "field added_log_converted ''Row Added'' (rows added_log_converted ! 3) = NaN"
    by (simp add: added_log_converted_def added_log_def field_def cell_at_def)
  moreover have "added_log_converted \<noteq> added_log"
    by (simp add: added_log_converted_def added_log_def)
  moreover have "master (loaded added_log scenario) = Some added_log" by (simp add: loaded_def)
  ultimately show ?thesis using example_loaded run_result run_master by (intro conjI)
qed

end
